theory Spec2Isabelle
  imports Main
begin

section \<open>SpotBot: the data model\<close>

text \<open>
  SpotBot exists in two variants. The multi-tenant bot (\<^verbatim>\<open>app.js\<close>, HTTP mode with OAuth)
  keeps one Installation per workspace and lets its handlers run in the workspace's
  active channel only; the single-tenant bot (socket mode) compares against the constant channel
  \<^verbatim>\<open>C0AD6UA1G92\<close> in two of its listeners. Definitions of the multi-tenant handlers carry
  the prefix \<open>mt_\<close>, those of the single-tenant handlers the prefix \<open>st_\<close>.

  A Mongoose document is a record. A path that is absent from the document is \<open>None\<close>.
  Texts are the UTF-8 bytes of the JavaScript strings.
\<close>

datatype status = confirmed | pending | rejected

record spot =
  teamId :: "string option"
  spotterId :: string
  targetId :: string
  imageUrl :: "string option"
  channelId :: string
  messageTs :: "string option"
  status :: status
  timestamp :: int

text \<open>
  The source holds two Spot schemas, and which file each bot loads as \<^verbatim>\<open>./Spot\<close> is not
  fixed by the sources. \<^verbatim>\<open>Spot.js\<close> declares the spotter, the target, the image, the
  channel, the status and the time. The other schema declares in addition \<open>teamId\<close>,
  required, and \<open>messageTs\<close>. The two differ in these two paths only, so a schema is
  given by what it says about them, and the spot listeners take the schema as a
  parameter.
\<close>

record spot_schema =
  declares_teamId :: bool
  declares_messageTs :: bool

definition SpotSchema_plain :: spot_schema where
  "SpotSchema_plain = \<lparr>declares_teamId = False, declares_messageTs = False\<rparr>"

definition SpotSchema_team :: spot_schema where
  "SpotSchema_team = \<lparr>declares_teamId = True, declares_messageTs = True\<rparr>"

text \<open>
  Of an Installation the handlers read the team identifier and the active channel only;
  the credentials and the raw payload are written by the installation store and used by
  the framework. The schema is the one that declares \<open>activeChannelId\<close>.
\<close>

record installation =
  inst_teamId :: string
  teamName :: "string option"
  botToken :: string
  activeChannelId :: "string option"

record store =
  spots :: "spot list"
  installations :: "installation list"

text \<open>The events of the chat platform, as the handlers read them.\<close>

record slack_file =
  url_private :: "string option"

record message =
  team :: string
  channel :: string
  user :: string
  msg_text :: string
  ts :: string
  thread_ts :: "string option"
  files :: "slack_file list option"

record command =
  team_id :: string
  channel_id :: string
  user_id :: string
  command_text :: string

text \<open>
  What a handler cannot control: whether the document store answers while the handler
  runs (a store that does not answer makes every store call of the handler throw), what
  the identity service says about a user (\<^verbatim>\<open>client.users.info(...).user.is_admin\<close>, or
  an exception), and the clock behind \<^verbatim>\<open>Date.now\<close>.
\<close>

datatype error = StoreError | ValidationError | LookupError

record env =
  store_up :: bool
  users_info :: "string \<Rightarrow> error + bool"
  now :: int

text \<open>
  The replies, one constructor per message text of the source, with the values that are
  interpolated into it: a board carries its limit and its rows (identifier and count), from
  which the ranked lines with their medals are printed; \<open>Gallery\<close> carries the target,
  the number in its heading and, after the heading and the divider, one block per spot
  with the spot's time (the source prints it as a date), spotter and image. A reply is
  posted to the channel or, with a \<^verbatim>\<open>thread_ts\<close>, to a thread.
\<close>

record gallery_block =
  block_date :: int
  block_spotter :: string
  block_image :: "string option"

datatype reply =
    SetChannelDenied string
  | SetChannelActive
  | SetChannelTrouble
  | SpotLogged string string
  | SpotSaveTrouble
  | NoPhoto string
  | NotActive
  | NoSpotsYet
  | TopSpotters int "(string \<times> nat) list"
  | SpotboardTrouble
  | NobodyCaught
  | MostWanted int "(string \<times> nat) list"
  | CaughtboardTrouble
  | PicsUsage
  | IsClean string
  | Gallery string nat "gallery_block list"
  | PicsTrouble
  | VetoDenied string
  | Vetoed string string string int
  | NoSpotFound
  | VetoTrouble
  | ResetDenied string
  | Kaboom string nat
  | AlreadyClean
  | CouldNotVerify

type_synonym said = "reply \<times> string option"

text \<open>
  A handler returns the store it leaves and what it said, or the exception that escaped
  it (the rejected promise of the listener).
\<close>

type_synonym outcome = "error + (store \<times> said list)"

section \<open>The document store\<close>

text \<open>\<^verbatim>\<open>Installation.findOne({ teamId })\<close>\<close>

definition Installation_findOne :: "env \<Rightarrow> store \<Rightarrow> string \<Rightarrow> error + installation option" where
  "Installation_findOne e st t =
     (if store_up e then Inr (find (\<lambda>r. inst_teamId r = t) (installations st))
      else Inl StoreError)"

text \<open>
  \<^verbatim>\<open>Installation.findOneAndUpdate({ teamId }, { activeChannelId })\<close>, without the upsert
  option: the first matching record is updated, and no record is created when none
  matches.
\<close>

fun set_active :: "string \<Rightarrow> string \<Rightarrow> installation list \<Rightarrow> installation list" where
  "set_active t c [] = []"
| "set_active t c (r # rs) =
     (if inst_teamId r = t then r\<lparr>activeChannelId := Some c\<rparr> # rs
      else r # set_active t c rs)"

definition Installation_findOneAndUpdate :: "env \<Rightarrow> store \<Rightarrow> string \<Rightarrow> string \<Rightarrow> error + store" where
  "Installation_findOneAndUpdate e st t c =
     (if store_up e then Inr (st\<lparr>installations := set_active t c (installations st)\<rparr>)
      else Inl StoreError)"

text \<open>
  \<^verbatim>\<open>newSpot.save()\<close>. The schema's \<^verbatim>\<open>required: true\<close> on a String path rejects
  \<^verbatim>\<open>undefined\<close> and the empty string; \<open>teamId\<close> is required by the schema that declares
  it. An accepted document is appended to the collection.
\<close>

definition required :: "string option \<Rightarrow> bool" where
  "required v = (case v of None \<Rightarrow> False | Some s \<Rightarrow> s \<noteq> [])"

definition SpotSchema_valid :: "spot_schema \<Rightarrow> spot \<Rightarrow> bool" where
  "SpotSchema_valid sch d =
     ((declares_teamId sch \<longrightarrow> required (teamId d)) \<and> spotterId d \<noteq> [] \<and>
      targetId d \<noteq> [] \<and> required (imageUrl d) \<and> channelId d \<noteq> [])"

definition Spot_save :: "spot_schema \<Rightarrow> env \<Rightarrow> store \<Rightarrow> spot \<Rightarrow> error + store" where
  "Spot_save sch e st d =
     (if \<not> SpotSchema_valid sch d then Inl ValidationError
      else if \<not> store_up e then Inl StoreError
      else Inr (st\<lparr>spots := spots st @ [d]\<rparr>))"

text \<open>
  \<^verbatim>\<open>Spot.aggregate([{$match}, {$group: {_id, count: {$sum: 1}}}, {$sort: {count: -1}},
  {$limit}])\<close>. Groups appear in the order of their first document and the sort is stable;
  the database promises no order among equal counts. The server rejects a \<^verbatim>\<open>$limit\<close> that
  is not positive.
\<close>

definition group_count :: "(spot \<Rightarrow> string) \<Rightarrow> spot list \<Rightarrow> (string \<times> nat) list" where
  "group_count key xs =
     map (\<lambda>k. (k, length (filter (\<lambda>s. key s = k) xs))) (remdups (map key xs))"

definition Spot_aggregate ::
  "env \<Rightarrow> store \<Rightarrow> (spot \<Rightarrow> bool) \<Rightarrow> (spot \<Rightarrow> string) \<Rightarrow> int \<Rightarrow> error + (string \<times> nat) list" where
  "Spot_aggregate e st match key limit =
     (if \<not> store_up e then Inl StoreError
      else if limit \<le> 0 then Inl StoreError
      else Inr (take (nat limit)
                  (sort_key (\<lambda>g. - int (snd g)) (group_count key (filter match (spots st))))))"

text \<open>\<^verbatim>\<open>Spot.find({...}).sort({ timestamp: -1 }).limit(10)\<close>\<close>

definition Spot_find_newest :: "env \<Rightarrow> store \<Rightarrow> (spot \<Rightarrow> bool) \<Rightarrow> nat \<Rightarrow> error + spot list" where
  "Spot_find_newest e st match n =
     (if store_up e then Inr (take n (sort_key (\<lambda>s. - timestamp s) (filter match (spots st))))
      else Inl StoreError)"

text \<open>\<^verbatim>\<open>Spot.findOneAndDelete({...})\<close>: the first matching document is removed and returned.\<close>

definition Spot_findOneAndDelete ::
  "env \<Rightarrow> store \<Rightarrow> (spot \<Rightarrow> bool) \<Rightarrow> error + (spot option \<times> store)" where
  "Spot_findOneAndDelete e st match =
     (if \<not> store_up e then Inl StoreError
      else case find match (spots st) of
             None \<Rightarrow> Inr (None, st)
           | Some d \<Rightarrow> Inr (Some d, st\<lparr>spots := remove1 d (spots st)\<rparr>))"

text \<open>\<^verbatim>\<open>Spot.deleteMany({...})\<close>, with its \<^verbatim>\<open>deletedCount\<close>.\<close>

definition Spot_deleteMany :: "env \<Rightarrow> store \<Rightarrow> (spot \<Rightarrow> bool) \<Rightarrow> error + (nat \<times> store)" where
  "Spot_deleteMany e st match =
     (if store_up e
      then Inr (length (filter match (spots st)),
                st\<lparr>spots := filter (\<lambda>s. \<not> match s) (spots st)\<rparr>)
      else Inl StoreError)"

section \<open>The channel guard\<close>

text \<open>
  \<^verbatim>\<open>record?.activeChannelId || null\<close>: a missing record, a missing field and the empty
  string all give \<^verbatim>\<open>null\<close>.
\<close>

definition getActiveChannel :: "env \<Rightarrow> store \<Rightarrow> string \<Rightarrow> error + string option" where
  "getActiveChannel e st t =
     (case Installation_findOne e st t of
        Inl err \<Rightarrow> Inl err
      | Inr None \<Rightarrow> Inr None
      | Inr (Some r) \<Rightarrow>
          (case activeChannelId r of
             None \<Rightarrow> Inr None
           | Some a \<Rightarrow> if a = [] then Inr None else Inr (Some a)))"

definition isActiveChannel :: "env \<Rightarrow> store \<Rightarrow> string \<Rightarrow> string \<Rightarrow> error + bool" where
  "isActiveChannel e st t c =
     (case getActiveChannel e st t of
        Inl err \<Rightarrow> Inl err
      | Inr None \<Rightarrow> Inr False
      | Inr (Some active) \<Rightarrow> Inr (active = c))"

text \<open>The constant of the single-tenant bot.\<close>

definition st_channel :: string where
  "st_channel = ''C0AD6UA1G92''"

section \<open>Reading the text of an event\<close>

text \<open>
  \<^verbatim>\<open>message.text.match(/<@([A-Z0-9]+)>/)\<close>: the leftmost place where \<^verbatim>\<open><@\<close> is followed by a
  non-empty run of capitals and digits and then \<^verbatim>\<open>>\<close>; the run is the target. The character
  after a run is outside the class, so only the longest run at a place can match.
\<close>

definition is_id_char :: "char \<Rightarrow> bool" where
  "is_id_char c =
     (let n = (of_char c :: nat) in (48 \<le> n \<and> n \<le> 57) \<or> (65 \<le> n \<and> n \<le> 90))"

definition mention_at :: "string \<Rightarrow> string option" where
  "mention_at s =
     (if take 2 s = ''<@'' then
        (let run = takeWhile is_id_char (drop 2 s);
             rest = dropWhile is_id_char (drop 2 s)
         in if run \<noteq> [] \<and> take 1 rest = ''>'' then Some run else None)
      else None)"

fun targetUser :: "string \<Rightarrow> string option" where
  "targetUser [] = None"
| "targetUser (c # cs) =
     (case mention_at (c # cs) of Some t \<Rightarrow> Some t | None \<Rightarrow> targetUser cs)"


text \<open>
  \<^verbatim>\<open>parseInt(command.text)\<close>: leading white space is skipped, a sign is read, a prefix
  \<^verbatim>\<open>0x\<close> selects radix 16, and the longest run of digits is the value, rounded to the
  nearest double; no digit gives \<^verbatim>\<open>NaN\<close>, here \<open>None\<close>.

  The white space of JavaScript is the tab, the line feed, the vertical tab, the form
  feed, the carriage return, the space, and beyond ASCII the code points \<open>U+00A0\<close>,
  \<open>U+1680\<close>, \<open>U+2000\<close> to \<open>U+200A\<close>, \<open>U+2028\<close>, \<open>U+2029\<close>, \<open>U+202F\<close>, \<open>U+205F\<close>,
  \<open>U+3000\<close> and \<open>U+FEFF\<close>; \<open>white_space\<close> is the number of bytes of such a character
  at the head of a text, and 0 when there is none.
\<close>

definition white_space :: "string \<Rightarrow> nat" where
  "white_space s =
     (case map (of_char :: char \<Rightarrow> nat) (take 3 s) of
        [] \<Rightarrow> 0
      | b0 # bs \<Rightarrow>
          if (9 \<le> b0 \<and> b0 \<le> 13) \<or> b0 = 32 then 1
          else if b0 = 194 \<and> take 1 bs = [160] then 2
          else if b0 = 225 \<and> bs = [154, 128] then 3
          else if b0 = 226 \<and> take 1 bs = [128] \<and>
                  (case drop 1 bs of
                     [] \<Rightarrow> False
                   | b2 # x \<Rightarrow> (128 \<le> b2 \<and> b2 \<le> 138) \<or> b2 = 168 \<or> b2 = 169 \<or> b2 = 175)
               then 3
          else if b0 = 226 \<and> bs = [129, 159] then 3
          else if b0 = 227 \<and> bs = [128, 128] then 3
          else if b0 = 239 \<and> bs = [187, 191] then 3
          else 0)"

text \<open>\<open>skip k s\<close> drops \<open>k\<close> bytes and then all leading white space.\<close>

fun skip :: "nat \<Rightarrow> string \<Rightarrow> string" where
  "skip k [] = []"
| "skip (Suc k) (c # cs) = skip k cs"
| "skip 0 (c # cs) = (case white_space (c # cs) of 0 \<Rightarrow> c # cs | Suc j \<Rightarrow> skip j cs)"

definition digit :: "nat \<Rightarrow> char \<Rightarrow> nat option" where
  "digit radix c =
     (let n = (of_char c :: nat);
          d = (if 48 \<le> n \<and> n \<le> 57 then Some (n - 48)
               else if 97 \<le> n \<and> n \<le> 122 then Some (n - 87)
               else if 65 \<le> n \<and> n \<le> 90 then Some (n - 55)
               else None)
      in case d of None \<Rightarrow> None | Some v \<Rightarrow> if v < radix then Some v else None)"

definition digits_value :: "nat \<Rightarrow> string \<Rightarrow> int" where
  "digits_value radix ds =
     foldl (\<lambda>a c. a * int radix + (case digit radix c of None \<Rightarrow> 0 | Some v \<Rightarrow> int v)) 0 ds"

text \<open>
  A JavaScript number is a double. An integer below \<open>2^53\<close> is one; a larger one is
  rounded to 53 significant bits, to the nearest and to the even one of two nearest, and
  what reaches \<open>2^1024\<close> that way is \<^verbatim>\<open>Infinity\<close>, for which \<open>2^1024\<close> stands here: it
  is no double, and it compares with 25 and with 0 as \<^verbatim>\<open>Infinity\<close> does.
\<close>

function bit_length :: "int \<Rightarrow> nat" where
  "bit_length n = (if n \<le> 0 then 0 else Suc (bit_length (n div 2)))"
  by pat_completeness auto
termination
  by (relation "measure nat") auto

declare bit_length.simps [simp del]

definition to_double :: "int \<Rightarrow> int" where
  "to_double n =
     (if n < 2 ^ 53 then n
      else
        (let e = bit_length n - 53;
             q = n div 2 ^ e;
             r = n mod 2 ^ e;
             q' = (if 2 ^ e < 2 * r \<or> (2 * r = 2 ^ e \<and> odd q) then q + 1 else q)
         in if 2 ^ 1024 \<le> q' * 2 ^ e then 2 ^ 1024 else q' * 2 ^ e))"

definition parseInt :: "string \<Rightarrow> int option" where
  "parseInt s =
     (let s1 = skip 0 s;
          neg = (take 1 s1 = ''-'');
          s2 = (if take 1 s1 = ''-'' \<or> take 1 s1 = ''+'' then drop 1 s1 else s1);
          hex = (take 2 s2 = ''0x'' \<or> take 2 s2 = ''0X'');
          radix = (if hex then 16 else 10);
          s3 = (if hex then drop 2 s2 else s2);
          ds = takeWhile (\<lambda>c. digit radix c \<noteq> None) s3;
          v = to_double (digits_value radix ds)
      in if ds = [] then None else Some (if neg then - v else v))"

text \<open>
  \<^verbatim>\<open>let limit = parseInt(command.text) || 10; if (limit > 25) limit = 25;\<close> where
  \<^verbatim>\<open>NaN\<close> and \<open>0\<close> are the falsy numbers.
\<close>

definition limit_of :: "string \<Rightarrow> int" where
  "limit_of t =
     (let limit = (case parseInt t of None \<Rightarrow> 10 | Some n \<Rightarrow> if n = 0 then 10 else n)
      in if limit > 25 then 25 else limit)"

section \<open>The handlers\<close>

text \<open>
  The framework calls a listener for the messages that match its pattern and a command
  handler for its command; the definitions below are the bodies of the listeners and
  handlers. Every command handler acknowledges the command first (\<^verbatim>\<open>await ack()\<close>);
  the acknowledgement has no effect on the store or the replies. The console log lines
  are left out as well.
\<close>

subsection \<open>Logging a spot\<close>

text \<open>
  \<^verbatim>\<open>new Spot({...})\<close>. The constructor keeps the paths its schema declares and drops the
  others (the strict mode of Mongoose); the status and the time are the schema's
  defaults. \<open>tm\<close> is what the handler passes as \<open>teamId\<close>: \<open>Some (team m)\<close> in the
  multi-tenant bot, nothing in the single-tenant one.
\<close>

definition new_Spot ::
  "spot_schema \<Rightarrow> env \<Rightarrow> string option \<Rightarrow> message \<Rightarrow> string \<Rightarrow> slack_file \<Rightarrow> spot" where
  "new_Spot sch e tm m target f =
     \<lparr>teamId = (if declares_teamId sch then tm else None),
      spotterId = user m, targetId = target, imageUrl = url_private f, channelId = channel m,
      messageTs = (if declares_messageTs sch then Some (ts m) else None),
      status = confirmed, timestamp = now e\<rparr>"

text \<open>
  The body of the spot listener after its channel check, the same text in both files but
  for the \<open>teamId\<close> argument. The source tests \<^verbatim>\<open>targetUser && hasImage\<close>, then
  \<^verbatim>\<open>!hasImage && targetUser\<close>; \<open>hasImage\<close> is false in the first two cases of \<open>files m\<close>
  and true in the third, where \<open>f\<close> is \<^verbatim>\<open>message.files[0]\<close>.
\<close>

definition log_spot :: "spot_schema \<Rightarrow> string option \<Rightarrow> env \<Rightarrow> store \<Rightarrow> message \<Rightarrow> outcome" where
  "log_spot sch tm e st m =
     (case targetUser (msg_text m) of
        None \<Rightarrow> Inr (st, [])
      | Some target \<Rightarrow>
          (case files m of
             None \<Rightarrow> Inr (st, [(NoPhoto (user m), None)])
           | Some [] \<Rightarrow> Inr (st, [(NoPhoto (user m), None)])
           | Some (f # fs) \<Rightarrow>
               (case Spot_save sch e st (new_Spot sch e tm m target f) of
                  Inl err \<Rightarrow> Inr (st, [(SpotSaveTrouble, None)])
                | Inr st' \<Rightarrow> Inr (st', [(SpotLogged (user m) target, None)]))))"

definition mt_spot_listener :: "spot_schema \<Rightarrow> env \<Rightarrow> store \<Rightarrow> message \<Rightarrow> outcome" where
  "mt_spot_listener sch e st m =
     (case isActiveChannel e st (team m) (channel m) of
        Inl err \<Rightarrow> Inl err
      | Inr ok \<Rightarrow> if \<not> ok then Inr (st, []) else log_spot sch (Some (team m)) e st m)"

definition st_spot_listener :: "spot_schema \<Rightarrow> env \<Rightarrow> store \<Rightarrow> message \<Rightarrow> outcome" where
  "st_spot_listener sch e st m =
     (if channel m \<noteq> st_channel then Inr (st, []) else log_spot sch None e st m)"

subsection \<open>The leaderboards\<close>

text \<open>
  The four leaderboard handlers differ in the \<^verbatim>\<open>$match\<close> filter, the grouping key and
  the texts; \<open>leaderboard\<close> is what follows the computation of the limit in each. Here
  and below a filter reaches the store as the handler writes it, also on a path that the
  schema does not declare: such a path matches the documents that carry it.
\<close>

definition leaderboard ::
  "env \<Rightarrow> store \<Rightarrow> (spot \<Rightarrow> bool) \<Rightarrow> (spot \<Rightarrow> string) \<Rightarrow> int \<Rightarrow>
   reply \<Rightarrow> (int \<Rightarrow> (string \<times> nat) list \<Rightarrow> reply) \<Rightarrow> reply \<Rightarrow> outcome" where
  "leaderboard e st match key limit nobody board trouble =
     (case Spot_aggregate e st match key limit of
        Inl err \<Rightarrow> Inr (st, [(trouble, None)])
      | Inr rows \<Rightarrow>
          if rows = [] then Inr (st, [(nobody, None)])
          else Inr (st, [(board limit rows, None)]))"

definition mt_match :: "command \<Rightarrow> spot \<Rightarrow> bool" where
  "mt_match cmd s =
     (teamId s = Some (team_id cmd) \<and> channelId s = channel_id cmd \<and> status s = confirmed)"

definition st_match :: "command \<Rightarrow> spot \<Rightarrow> bool" where
  "st_match cmd s = (channelId s = channel_id cmd \<and> status s = confirmed)"

definition mt_spotboard :: "env \<Rightarrow> store \<Rightarrow> command \<Rightarrow> outcome" where
  "mt_spotboard e st cmd =
     (case isActiveChannel e st (team_id cmd) (channel_id cmd) of
        Inl err \<Rightarrow> Inl err
      | Inr ok \<Rightarrow>
          if \<not> ok then Inr (st, [(NotActive, None)])
          else leaderboard e st (mt_match cmd) spotterId (limit_of (command_text cmd))
                 NoSpotsYet TopSpotters SpotboardTrouble)"

definition mt_caughtboard :: "env \<Rightarrow> store \<Rightarrow> command \<Rightarrow> outcome" where
  "mt_caughtboard e st cmd =
     (case isActiveChannel e st (team_id cmd) (channel_id cmd) of
        Inl err \<Rightarrow> Inl err
      | Inr ok \<Rightarrow>
          if \<not> ok then Inr (st, [(NotActive, None)])
          else leaderboard e st (mt_match cmd) targetId (limit_of (command_text cmd))
                 NobodyCaught MostWanted CaughtboardTrouble)"

definition st_spotboard :: "env \<Rightarrow> store \<Rightarrow> command \<Rightarrow> outcome" where
  "st_spotboard e st cmd =
     leaderboard e st (st_match cmd) spotterId (limit_of (command_text cmd))
       NoSpotsYet TopSpotters SpotboardTrouble"

definition st_caughtboard :: "env \<Rightarrow> store \<Rightarrow> command \<Rightarrow> outcome" where
  "st_caughtboard e st cmd =
     leaderboard e st (st_match cmd) targetId (limit_of (command_text cmd))
       NobodyCaught MostWanted CaughtboardTrouble"

subsection \<open>The gallery\<close>

definition block_of :: "spot \<Rightarrow> gallery_block" where
  "block_of s = \<lparr>block_date = timestamp s, block_spotter = spotterId s, block_image = imageUrl s\<rparr>"

definition gallery :: "string option \<Rightarrow> env \<Rightarrow> store \<Rightarrow> message \<Rightarrow> outcome" where
  "gallery tm e st m =
     (case targetUser (msg_text m) of
        None \<Rightarrow> Inr (st, [(PicsUsage, None)])
      | Some target \<Rightarrow>
          (case Spot_find_newest e st
                  (\<lambda>s. (tm \<noteq> None \<longrightarrow> teamId s = tm) \<and> targetId s = target \<and>
                        channelId s = channel m \<and> status s = confirmed) 10 of
             Inl err \<Rightarrow> Inr (st, [(PicsTrouble, None)])
           | Inr found \<Rightarrow>
               if found = [] then Inr (st, [(IsClean target, None)])
               else Inr (st, [(Gallery target (length found) (map block_of found), None)])))"

definition mt_pics :: "env \<Rightarrow> store \<Rightarrow> message \<Rightarrow> outcome" where
  "mt_pics e st m =
     (case isActiveChannel e st (team m) (channel m) of
        Inl err \<Rightarrow> Inl err
      | Inr ok \<Rightarrow> if \<not> ok then Inr (st, []) else gallery (Some (team m)) e st m)"

definition st_pics :: "env \<Rightarrow> store \<Rightarrow> message \<Rightarrow> outcome" where
  "st_pics e st m =
     (if channel m \<noteq> st_channel then Inr (st, []) else gallery None e st m)"

subsection \<open>Veto\<close>

text \<open>
  \<^verbatim>\<open>if (!message.thread_ts || message.thread_ts === message.ts) return;\<close> and the
  \<^verbatim>\<open>try\<close> block that follows. The filter of the multi-tenant bot has the \<open>teamId\<close> path in
  addition (\<open>tm\<close> as above).
\<close>

definition veto_match :: "string option \<Rightarrow> message \<Rightarrow> string \<Rightarrow> spot \<Rightarrow> bool" where
  "veto_match tm m root s =
     ((tm \<noteq> None \<longrightarrow> teamId s = tm) \<and> messageTs s = Some root \<and> channelId s = channel m)"

definition veto :: "string option \<Rightarrow> env \<Rightarrow> store \<Rightarrow> message \<Rightarrow> outcome" where
  "veto tm e st m =
     (case thread_ts m of
        None \<Rightarrow> Inr (st, [])
      | Some root \<Rightarrow>
          if root = [] \<or> root = ts m then Inr (st, [])
          else
            (case users_info e (user m) of
               Inl err \<Rightarrow> Inr (st, [(VetoTrouble, Some root)])
             | Inr isAdmin \<Rightarrow>
                 if \<not> isAdmin then Inr (st, [(VetoDenied (user m), Some root)])
                 else
                   (case Spot_findOneAndDelete e st (veto_match tm m root) of
                      Inl err \<Rightarrow> Inr (st, [(VetoTrouble, Some root)])
                    | Inr (None, st') \<Rightarrow> Inr (st', [(NoSpotFound, Some root)])
                    | Inr (Some d, st') \<Rightarrow>
                        Inr (st', [(Vetoed (user m) (spotterId d) (targetId d) (timestamp d),
                                    Some root)]))))"

definition mt_veto :: "env \<Rightarrow> store \<Rightarrow> message \<Rightarrow> outcome" where
  "mt_veto e st m =
     (case isActiveChannel e st (team m) (channel m) of
        Inl err \<Rightarrow> Inl err
      | Inr ok \<Rightarrow> if \<not> ok then Inr (st, []) else veto (Some (team m)) e st m)"

definition st_veto :: "env \<Rightarrow> store \<Rightarrow> message \<Rightarrow> outcome" where
  "st_veto e st m = veto None e st m"

subsection \<open>Reset\<close>

definition reset :: "(spot \<Rightarrow> bool) \<Rightarrow> env \<Rightarrow> store \<Rightarrow> command \<Rightarrow> outcome" where
  "reset match e st cmd =
     (case users_info e (user_id cmd) of
        Inl err \<Rightarrow> Inr (st, [(CouldNotVerify, None)])
      | Inr isAdmin \<Rightarrow>
          if \<not> isAdmin then Inr (st, [(ResetDenied (user_id cmd), None)])
          else
            (case Spot_deleteMany e st match of
               Inl err \<Rightarrow> Inr (st, [(CouldNotVerify, None)])
             | Inr (deletedCount, st') \<Rightarrow>
                 if deletedCount > 0 then Inr (st', [(Kaboom (user_id cmd) deletedCount, None)])
                 else Inr (st', [(AlreadyClean, None)])))"

definition mt_reset :: "env \<Rightarrow> store \<Rightarrow> command \<Rightarrow> outcome" where
  "mt_reset e st cmd =
     (case isActiveChannel e st (team_id cmd) (channel_id cmd) of
        Inl err \<Rightarrow> Inl err
      | Inr ok \<Rightarrow>
          if \<not> ok then Inr (st, [(NotActive, None)])
          else reset (\<lambda>s. teamId s = Some (team_id cmd) \<and> channelId s = channel_id cmd) e st cmd)"

definition st_reset :: "env \<Rightarrow> store \<Rightarrow> command \<Rightarrow> outcome" where
  "st_reset e st cmd = reset (\<lambda>s. channelId s = channel_id cmd) e st cmd"

subsection \<open>Binding the channel\<close>

definition mt_setchannel :: "env \<Rightarrow> store \<Rightarrow> command \<Rightarrow> outcome" where
  "mt_setchannel e st cmd =
     (case users_info e (user_id cmd) of
        Inl err \<Rightarrow> Inr (st, [(SetChannelTrouble, None)])
      | Inr isAdmin \<Rightarrow>
          if \<not> isAdmin then Inr (st, [(SetChannelDenied (user_id cmd), None)])
          else
            (case Installation_findOneAndUpdate e st (team_id cmd) (channel_id cmd) of
               Inl err \<Rightarrow> Inr (st, [(SetChannelTrouble, None)])
             | Inr st' \<Rightarrow> Inr (st', [(SetChannelActive, None)])))"

section \<open>Example data\<close>

text \<open>
  A store with two workspaces, \<open>T1\<close> bound to the channel \<open>C1\<close> and \<open>T2\<close> without a bound
  channel, an identity service that knows one administrator and fails for one user, and
  a message that reports a spot.
\<close>

definition ex_env :: env where
  "ex_env = \<lparr>store_up = True,
             users_info = (\<lambda>u. if u = ''UADMIN'' then Inr True
                                else if u = ''UGONE'' then Inl LookupError else Inr False),
             now = 1000\<rparr>"

definition ex_store :: store where
  "ex_store =
     \<lparr>spots = [],
      installations =
        [\<lparr>inst_teamId = ''T1'', teamName = None, botToken = ''xoxb-1'',
          activeChannelId = Some ''C1''\<rparr>,
         \<lparr>inst_teamId = ''T2'', teamName = None, botToken = ''xoxb-2'',
          activeChannelId = None\<rparr>]\<rparr>"

definition ex_message :: message where
  "ex_message =
     \<lparr>team = ''T1'', channel = ''C1'', user = ''U1'', msg_text = ''spotted <@U2> at lunch'',
      ts = ''1700000000.000100'', thread_ts = None,
      files = Some [\<lparr>url_private = Some ''https://files.slack.com/a.png''\<rparr>]\<rparr>"

text \<open>
  A board of three spots of workspace \<open>T1\<close> in its channel, written under the schema
  with the team identifier, a threaded reply to the first of them, a single-tenant store
  with one spot, written under the other schema, in a channel other than the constant
  one, and a command issued in that channel by the administrator.
\<close>

definition ex_board :: store where
  "ex_board =
     ex_store\<lparr>spots :=
       [\<lparr>teamId = Some ''T1'', spotterId = ''U1'', targetId = ''U2'',
         imageUrl = Some ''https://files.slack.com/a.png'', channelId = ''C1'',
         messageTs = Some ''1700000000.000100'', status = confirmed, timestamp = 900\<rparr>,
        \<lparr>teamId = Some ''T1'', spotterId = ''U3'', targetId = ''U2'',
         imageUrl = Some ''https://files.slack.com/b.png'', channelId = ''C1'',
         messageTs = Some ''1700000000.000200'', status = confirmed, timestamp = 950\<rparr>,
        \<lparr>teamId = Some ''T1'', spotterId = ''U1'', targetId = ''U3'',
         imageUrl = Some ''https://files.slack.com/c.png'', channelId = ''C1'',
         messageTs = Some ''1700000000.000300'', status = confirmed, timestamp = 920\<rparr>]\<rparr>"

definition ex_veto :: message where
  "ex_veto =
     \<lparr>team = ''T1'', channel = ''C1'', user = ''UADMIN'', msg_text = ''veto'',
      ts = ''1700000000.000900'', thread_ts = Some ''1700000000.000100'', files = None\<rparr>"

definition ex_st_store :: store where
  "ex_st_store =
     \<lparr>spots =
        [\<lparr>teamId = None, spotterId = ''U1'', targetId = ''U2'',
          imageUrl = Some ''https://files.slack.com/a.png'', channelId = ''C9'',
          messageTs = None, status = confirmed, timestamp = 900\<rparr>],
      installations = []\<rparr>"

definition ex_command :: command where
  "ex_command = \<lparr>team_id = ''T1'', channel_id = ''C9'', user_id = ''UADMIN'', command_text = []\<rparr>"

definition ex_pics :: message where
  "ex_pics =
     \<lparr>team = ''T1'', channel = ''C1'', user = ''U4'', msg_text = ''pics <@U2>'',
      ts = ''1700000000.000950'', thread_ts = None, files = None\<rparr>"

section \<open>Facts about the store and the text functions\<close>

lemma set_active_no_match:
  "find (\<lambda>r. inst_teamId r = t) rs = None \<Longrightarrow> set_active t c rs = rs"
  by (induction rs) (auto split: if_splits)




lemma isActiveChannel_ignores_spots: "isActiveChannel e (st\<lparr>spots := sp\<rparr>) t c = isActiveChannel e st t c"
  by (simp add: isActiveChannel_def getActiveChannel_def Installation_findOne_def)

section \<open>Properties of the channel guard\<close>

text \<open>
  Claim C4. With the store answering, \<open>isActiveChannel\<close> returns false when the tenant has
  no Installation, and false when the Installation's active channel is unset (absent, or
  the empty string, which the source's falsy test treats alike); otherwise it returns
  true if and only if the stored channel equals the given one.
\<close>

theorem isActiveChannel_fail_closed:
  assumes "store_up e"
  shows "(find (\<lambda>r. inst_teamId r = t) (installations st) = None \<longrightarrow>
            isActiveChannel e st t c = Inr False) \<and>
         (find (\<lambda>r. inst_teamId r = t) (installations st) = Some r \<and>
            (activeChannelId r = None \<or> activeChannelId r = Some []) \<longrightarrow>
            isActiveChannel e st t c = Inr False) \<and>
         (find (\<lambda>r. inst_teamId r = t) (installations st) = Some r \<and>
            activeChannelId r = Some a \<and> a \<noteq> [] \<longrightarrow>
            isActiveChannel e st t c = Inr (a = c))"
  using assms
  by (auto simp: isActiveChannel_def getActiveChannel_def Installation_findOne_def)

theorem isActiveChannel_fail_closed_witness:
  "isActiveChannel ex_env ex_store ''T9'' ''C1'' = Inr False \<and>
   isActiveChannel ex_env ex_store ''T2'' ''C1'' = Inr False \<and>
   isActiveChannel ex_env ex_store ''T1'' ''C1'' = Inr True \<and>
   isActiveChannel ex_env ex_store ''T1'' ''C2'' = Inr False"
  using isActiveChannel_fail_closed [of ex_env "''T9''" ex_store "''C1''"]
        isActiveChannel_fail_closed [of ex_env "''T2''" ex_store "''C1''"
          "\<lparr>inst_teamId = ''T2'', teamName = None, botToken = ''xoxb-2'',
            activeChannelId = None\<rparr>"]
        isActiveChannel_fail_closed [of ex_env "''T1''" ex_store "''C1''"
          "\<lparr>inst_teamId = ''T1'', teamName = None, botToken = ''xoxb-1'',
            activeChannelId = Some ''C1''\<rparr>" "''C1''"]
        isActiveChannel_fail_closed [of ex_env "''T1''" ex_store "''C2''"
          "\<lparr>inst_teamId = ''T1'', teamName = None, botToken = ''xoxb-1'',
            activeChannelId = Some ''C1''\<rparr>" "''C1''"]
  by (simp add: ex_env_def ex_store_def)

section \<open>The decision table of the spot listener\<close>








section \<open>Binding a channel without an Installation\<close>

text \<open>
  Claim C9. When an administrator runs \<^verbatim>\<open>/setchannel\<close> for a tenant without an
  Installation, the update matches no record and creates none, its result is not
  looked at, and the handler still replies that the bot is now active: the store is
  unchanged and \<open>isActiveChannel\<close> stays false for every channel of that tenant.
\<close>

theorem setchannel_without_installation:
  assumes "users_info e (user_id cmd) = Inr True" and "store_up e"
    and "find (\<lambda>r. inst_teamId r = team_id cmd) (installations st) = None"
  shows "mt_setchannel e st cmd = Inr (st, [(SetChannelActive, None)]) \<and>
         isActiveChannel e st (team_id cmd) c = Inr False"
  using assms
  by (simp add: mt_setchannel_def Installation_findOneAndUpdate_def set_active_no_match
      isActiveChannel_def getActiveChannel_def Installation_findOne_def)

theorem setchannel_without_installation_witness:
  "mt_setchannel ex_env ex_store
      \<lparr>team_id = ''T9'', channel_id = ''C7'', user_id = ''UADMIN'', command_text = []\<rparr> =
     Inr (ex_store, [(SetChannelActive, None)]) \<and>
   isActiveChannel ex_env ex_store ''T9'' ''C7'' = Inr False"
  using setchannel_without_installation [of ex_env
      "\<lparr>team_id = ''T9'', channel_id = ''C7'', user_id = ''UADMIN'', command_text = []\<rparr>"
      ex_store "''C7''"]
  by (simp add: ex_env_def ex_store_def)

section \<open>What a reset deletes\<close>

lemma reset_authorized:
  assumes "users_info e (user_id cmd) = Inr True" and "store_up e"
  shows "reset scope e st cmd =
     Inr (st\<lparr>spots := filter (\<lambda>s. \<not> scope s) (spots st)\<rparr>,
          [(if length (filter scope (spots st)) > 0
            then Kaboom (user_id cmd) (length (filter scope (spots st))) else AlreadyClean, None)])"
  using assms by (simp add: reset_def Spot_deleteMany_def)

lemma filter_scope_gone: "filter scope (filter (\<lambda>s. \<not> scope s) xs) = []"
  by (induction xs) auto

text \<open>
  Claim C6. An authorized \<^verbatim>\<open>/reset\<close> (an administrator, the store answering, and in the
  multi-tenant bot the channel active) leaves exactly the Spots outside the invoking channel
  (and tenant, in the multi-tenant bot), reports as deleted the number of Spots of that
  scope, which is the number by which the collection shrank, or "already clean" when
  that number is zero; a second \<^verbatim>\<open>/reset\<close> right after it removes nothing and replies
  "already clean".
\<close>

theorem reset_deletes_scope:
  assumes "users_info e (user_id cmd) = Inr True" and "store_up e"
    and "isActiveChannel e st (team_id cmd) (channel_id cmd) = Inr True \<and> handler = mt_reset \<and>
           scope = (\<lambda>s. teamId s = Some (team_id cmd) \<and> channelId s = channel_id cmd)
         \<or> handler = st_reset \<and> scope = (\<lambda>s. channelId s = channel_id cmd)"
    and "n = length (filter scope (spots st))"
    and "st' = st\<lparr>spots := filter (\<lambda>s. \<not> scope s) (spots st)\<rparr>"
  shows "handler e st cmd =
           Inr (st', [(if n > 0 then Kaboom (user_id cmd) n else AlreadyClean, None)]) \<and>
         n = length (spots st) - length (spots st') \<and>
         handler e st' cmd = Inr (st', [(AlreadyClean, None)])"
proof -
  have count: "n = length (spots st) - length (spots st')"
    using sum_length_filter_compl [of scope "spots st"] assms(4,5) by simp
  have body: "handler e st cmd = reset scope e st cmd \<and> handler e st' cmd = reset scope e st' cmd"
    using assms(3)
  proof (elim disjE conjE)
    assume g: "isActiveChannel e st (team_id cmd) (channel_id cmd) = Inr True"
      and h: "handler = mt_reset"
      and s: "scope = (\<lambda>s. teamId s = Some (team_id cmd) \<and> channelId s = channel_id cmd)"
    have "isActiveChannel e st' (team_id cmd) (channel_id cmd) = Inr True"
      using g assms(5) by (simp add: isActiveChannel_ignores_spots)
    with g show ?thesis
      unfolding h s by (simp add: mt_reset_def)
  next
    assume "handler = st_reset" and "scope = (\<lambda>s. channelId s = channel_id cmd)"
    then show ?thesis
      by (simp add: st_reset_def)
  qed
  show ?thesis
    using assms(1,2,4,5) count body
    by (simp add: reset_authorized filter_scope_gone)
qed

theorem reset_deletes_scope_witness:
  "st_reset ex_env ex_st_store ex_command =
     Inr (ex_st_store\<lparr>spots := []\<rparr>, [(Kaboom ''UADMIN'' 1, None)]) \<and>
   st_reset ex_env (ex_st_store\<lparr>spots := []\<rparr>) ex_command =
     Inr (ex_st_store\<lparr>spots := []\<rparr>, [(AlreadyClean, None)])"
  using reset_deletes_scope [of ex_env ex_command ex_st_store st_reset
      "\<lambda>s. channelId s = channel_id ex_command" 1 "ex_st_store\<lparr>spots := []\<rparr>"]
  by (simp add: ex_env_def ex_st_store_def ex_command_def)

section \<open>Failure of the identity lookup\<close>

text \<open>
  Claim C7. When the identity lookup fails, each handler that asks for it (\<^verbatim>\<open>/setchannel\<close>,
  \<^verbatim>\<open>/reset\<close> and a threaded veto, in the multi-tenant bot in the active channel) returns
  normally with one generic error reply and the store unchanged.
\<close>

theorem lookup_failure_is_denial:
  assumes "users_info e (user_id cmd) = Inl err" and "users_info e (user m) = Inl err"
    and "thread_ts m = Some root" and "root \<noteq> []" and "root \<noteq> ts m"
  shows "mt_setchannel e st cmd = Inr (st, [(SetChannelTrouble, None)]) \<and>
         st_reset e st cmd = Inr (st, [(CouldNotVerify, None)]) \<and>
         (isActiveChannel e st (team_id cmd) (channel_id cmd) = Inr True \<longrightarrow>
            mt_reset e st cmd = Inr (st, [(CouldNotVerify, None)])) \<and>
         st_veto e st m = Inr (st, [(VetoTrouble, Some root)]) \<and>
         (isActiveChannel e st (team m) (channel m) = Inr True \<longrightarrow>
            mt_veto e st m = Inr (st, [(VetoTrouble, Some root)]))"
  using assms
  by (simp add: mt_setchannel_def st_reset_def mt_reset_def reset_def st_veto_def mt_veto_def
      veto_def)

theorem lookup_failure_is_denial_witness:
  "mt_setchannel ex_env ex_board (ex_command\<lparr>user_id := ''UGONE''\<rparr>) =
     Inr (ex_board, [(SetChannelTrouble, None)]) \<and>
   st_reset ex_env ex_board (ex_command\<lparr>user_id := ''UGONE''\<rparr>) =
     Inr (ex_board, [(CouldNotVerify, None)]) \<and>
   mt_reset ex_env ex_board (ex_command\<lparr>user_id := ''UGONE'', channel_id := ''C1''\<rparr>) =
     Inr (ex_board, [(CouldNotVerify, None)]) \<and>
   st_veto ex_env ex_board (ex_veto\<lparr>user := ''UGONE''\<rparr>) =
     Inr (ex_board, [(VetoTrouble, Some ''1700000000.000100'')]) \<and>
   mt_veto ex_env ex_board (ex_veto\<lparr>user := ''UGONE''\<rparr>) =
     Inr (ex_board, [(VetoTrouble, Some ''1700000000.000100'')])"
  using lookup_failure_is_denial [of ex_env "ex_command\<lparr>user_id := ''UGONE''\<rparr>" LookupError
      "ex_veto\<lparr>user := ''UGONE''\<rparr>" "''1700000000.000100''" ex_board]
    lookup_failure_is_denial [of ex_env "ex_command\<lparr>user_id := ''UGONE'', channel_id := ''C1''\<rparr>"
      LookupError "ex_veto\<lparr>user := ''UGONE''\<rparr>" "''1700000000.000100''" ex_board]
  by (simp add: ex_env_def ex_board_def ex_store_def ex_command_def ex_veto_def isActiveChannel_def
      getActiveChannel_def Installation_findOne_def)

section \<open>The leaderboard limit\<close>

lemma aggregate_rows:
  assumes "Spot_aggregate e st match key limit = Inr rows"
  shows "0 < limit \<and> store_up e \<and>
         length rows = min (nat limit) (card (key ` {s \<in> set (spots st). match s}))"
proof -
  have "length (group_count key (filter match (spots st))) =
        card (key ` {s \<in> set (spots st). match s})"
    by (simp add: group_count_def length_remdups_card_conv)
  with assms show ?thesis
    by (auto simp: Spot_aggregate_def split: if_splits)
qed

lemma spotters_rows:
  assumes "leaderboard e st match key limit NoSpotsYet TopSpotters SpotboardTrouble =
             Inr (st', [(TopSpotters l rows, thr)])"
  shows "l = limit \<and> length rows = min (nat l) (card (key ` {s \<in> set (spots st). match s}))"
  using assms aggregate_rows [of e st match key limit]
  by (auto simp: leaderboard_def split: sum.splits if_splits)

lemma wanted_rows:
  assumes "leaderboard e st match key limit NobodyCaught MostWanted CaughtboardTrouble =
             Inr (st', [(MostWanted l rows, thr)])"
  shows "l = limit \<and> length rows = min (nat l) (card (key ` {s \<in> set (spots st). match s}))"
  using assms aggregate_rows [of e st match key limit]
  by (auto simp: leaderboard_def split: sum.splits if_splits)

lemma mt_spotboard_body:
  "mt_spotboard e st cmd = Inr (st', [(TopSpotters l rows, thr)]) \<Longrightarrow>
   leaderboard e st (mt_match cmd) spotterId (limit_of (command_text cmd))
     NoSpotsYet TopSpotters SpotboardTrouble = Inr (st', [(TopSpotters l rows, thr)])"
  by (auto simp: mt_spotboard_def split: sum.splits if_splits)

lemma mt_caughtboard_body:
  "mt_caughtboard e st cmd = Inr (st', [(MostWanted l rows, thr)]) \<Longrightarrow>
   leaderboard e st (mt_match cmd) targetId (limit_of (command_text cmd))
     NobodyCaught MostWanted CaughtboardTrouble = Inr (st', [(MostWanted l rows, thr)])"
  by (auto simp: mt_caughtboard_def split: sum.splits if_splits)

text \<open>
  Claim C5, as stated, fails at the text \<^verbatim>\<open>0\<close>: it is numeric, its parsed value does not
  exceed 25, and the limit is 10, not the parsed value.
\<close>

theorem limit_zero_counterexample:
  "parseInt ''0'' = Some 0 \<and> \<not> 25 < (0::int) \<and> limit_of ''0'' = 10 \<and> limit_of ''0'' \<noteq> 0"
  by (simp add: limit_of_def parseInt_def white_space_def digit_def digits_value_def to_double_def)

text \<open>
  Claim C5, amended. For both leaderboard commands, in both variants, the limit is 10 when
  the text is absent, not numeric or parses to 0, is 25 when the parsed value exceeds 25,
  and is the parsed value otherwise (\<^verbatim>\<open>5\<close> gives 5, \<^verbatim>\<open>999\<close> gives 25, \<^verbatim>\<open>abc\<close> and
  the empty text give 10). Every board a command renders is headed by that limit and has
  as many rows as the smaller of the limit and the number of groups, so at most limit
  rows, and exactly 10 for the default when there are that many groups.
\<close>

theorem leaderboard_limit:
  "limit_of t = (case parseInt t of None \<Rightarrow> 10
                 | Some n \<Rightarrow> if n = 0 then 10 else if 25 < n then 25 else n) \<and>
   limit_of [] = 10 \<and> limit_of ''abc'' = 10 \<and> limit_of ''5'' = 5 \<and> limit_of ''999'' = 25 \<and>
   (mt_spotboard e st cmd = Inr (st', [(TopSpotters l rows, thr)]) \<longrightarrow>
      l = limit_of (command_text cmd) \<and>
      length rows = min (nat l) (card (spotterId ` {s \<in> set (spots st). mt_match cmd s}))) \<and>
   (mt_caughtboard e st cmd = Inr (st', [(MostWanted l rows, thr)]) \<longrightarrow>
      l = limit_of (command_text cmd) \<and>
      length rows = min (nat l) (card (targetId ` {s \<in> set (spots st). mt_match cmd s}))) \<and>
   (st_spotboard e st cmd = Inr (st', [(TopSpotters l rows, thr)]) \<longrightarrow>
      l = limit_of (command_text cmd) \<and>
      length rows = min (nat l) (card (spotterId ` {s \<in> set (spots st). st_match cmd s}))) \<and>
   (st_caughtboard e st cmd = Inr (st', [(MostWanted l rows, thr)]) \<longrightarrow>
      l = limit_of (command_text cmd) \<and>
      length rows = min (nat l) (card (targetId ` {s \<in> set (spots st). st_match cmd s})))"
proof (intro conjI impI)
  show "limit_of t = (case parseInt t of None \<Rightarrow> 10
                      | Some n \<Rightarrow> if n = 0 then 10 else if 25 < n then 25 else n)"
    by (simp add: limit_of_def Let_def split: option.splits)
  show "limit_of [] = 10" "limit_of ''abc'' = 10" "limit_of ''5'' = 5" "limit_of ''999'' = 25"
    by (simp_all add: limit_of_def parseInt_def white_space_def digit_def digits_value_def to_double_def)
next
  assume a: "mt_spotboard e st cmd = Inr (st', [(TopSpotters l rows, thr)])"
  from spotters_rows [OF mt_spotboard_body [OF a]]
  show "l = limit_of (command_text cmd)"
    and "length rows = min (nat l) (card (spotterId ` {s \<in> set (spots st). mt_match cmd s}))"
    by simp_all
next
  assume a: "mt_caughtboard e st cmd = Inr (st', [(MostWanted l rows, thr)])"
  from wanted_rows [OF mt_caughtboard_body [OF a]]
  show "l = limit_of (command_text cmd)"
    and "length rows = min (nat l) (card (targetId ` {s \<in> set (spots st). mt_match cmd s}))"
    by simp_all
next
  assume a: "st_spotboard e st cmd = Inr (st', [(TopSpotters l rows, thr)])"
  from spotters_rows [OF a [unfolded st_spotboard_def]]
  show "l = limit_of (command_text cmd)"
    and "length rows = min (nat l) (card (spotterId ` {s \<in> set (spots st). st_match cmd s}))"
    by simp_all
next
  assume a: "st_caughtboard e st cmd = Inr (st', [(MostWanted l rows, thr)])"
  from wanted_rows [OF a [unfolded st_caughtboard_def]]
  show "l = limit_of (command_text cmd)"
    and "length rows = min (nat l) (card (targetId ` {s \<in> set (spots st). st_match cmd s}))"
    by simp_all
qed

theorem leaderboard_limit_witness:
  "mt_spotboard ex_env ex_board (ex_command\<lparr>channel_id := ''C1'', command_text := ''1''\<rparr>) =
     Inr (ex_board, [(TopSpotters 1 [(''U1'', 2)], None)]) \<and>
   limit_of ''1'' = 1 \<and>
   min 1 (card (spotterId ` {s \<in> set (spots ex_board).
      mt_match (ex_command\<lparr>channel_id := ''C1'', command_text := ''1''\<rparr>) s})) = 1"
proof -
  have run: "mt_spotboard ex_env ex_board (ex_command\<lparr>channel_id := ''C1'', command_text := ''1''\<rparr>) =
     Inr (ex_board, [(TopSpotters 1 [(''U1'', 2)], None)])"
    by (simp add: mt_spotboard_def ex_env_def ex_board_def ex_store_def ex_command_def
        isActiveChannel_def getActiveChannel_def Installation_findOne_def leaderboard_def
        Spot_aggregate_def group_count_def mt_match_def limit_of_def parseInt_def white_space_def
        digit_def digits_value_def to_double_def)
  have "mt_spotboard ex_env ex_board
          (ex_command\<lparr>channel_id := ''C1'', command_text := ''1''\<rparr>) =
        Inr (ex_board, [(TopSpotters 1 [(''U1'', 2)], None)]) \<longrightarrow>
        1 = limit_of (command_text (ex_command\<lparr>channel_id := ''C1'', command_text := ''1''\<rparr>)) \<and>
        length [(''U1'', 2::nat)] = min (nat 1) (card (spotterId ` {s \<in> set (spots ex_board).
          mt_match (ex_command\<lparr>channel_id := ''C1'', command_text := ''1''\<rparr>) s}))"
    using leaderboard_limit [of "''1''" ex_env ex_board
      "ex_command\<lparr>channel_id := ''C1'', command_text := ''1''\<rparr>" ex_board 1 "[(''U1'', 2)]" None]
    by blast
  with run show ?thesis
    by simp
qed

text \<open>
  What a leaderboard command replies when the store answers: the aggregation is rejected
  for a limit that is not positive, and otherwise cuts the sorted groups at the limit.
\<close>

lemma group_count_empty: "group_count key xs = [] \<longleftrightarrow> xs = []"
  by (simp add: group_count_def)

lemma sort_key_empty: "sort_key f xs = [] \<longleftrightarrow> xs = []"
  by (metis length_0_conv length_sort)

lemma leaderboard_outcome:
  assumes "store_up e"
  shows "leaderboard e st match key limit nobody board trouble =
     Inr (st, [(if limit \<le> 0 then trouble
                else if filter match (spots st) = [] then nobody
                else board limit
                  (take (nat limit)
                     (sort_key (\<lambda>g. - int (snd g)) (group_count key (filter match (spots st))))),
                None)])"
proof -
  have "0 < limit \<Longrightarrow>
      take (nat limit)
        (sort_key (\<lambda>g. - int (snd g)) (group_count key (filter match (spots st)))) = [] \<longleftrightarrow>
      filter match (spots st) = []"
    by (simp add: take_eq_Nil sort_key_empty group_count_empty del: filter_empty_conv)
  with assms show ?thesis
    by (simp add: leaderboard_def Spot_aggregate_def del: filter_empty_conv)
qed

text \<open>
  Claim C10. The limit has no lower clamp: a text that parses to a negative \<open>n\<close> gives
  the limit \<open>n\<close>; the text \<^verbatim>\<open>0\<close> parses to the falsy 0 and gives the default 10; any
  other parsed value up to 25 is kept and only values above 25 become 25. The
  aggregation runs with that limit: with the store answering, each leaderboard command
  replies with the groups of its scope cut at the limit under the limit as heading, and
  for a negative \<open>n\<close> the \<^verbatim>\<open>$limit\<close> stage receives \<open>n\<close>, the aggregation is rejected and
  the command replies with its error text.
\<close>

theorem limit_no_lower_clamp:
  assumes "limit = limit_of (command_text cmd)"
    and "mt_scope = (\<lambda>s. teamId s = Some (team_id cmd) \<and> channelId s = channel_id cmd \<and>
                          status s = confirmed)"
    and "st_scope = (\<lambda>s. channelId s = channel_id cmd \<and> status s = confirmed)"
    and "rows = (\<lambda>scope key. take (nat limit)
                   (sort_key (\<lambda>g. - int (snd g)) (group_count key (filter scope (spots st)))))"
  shows "(parseInt t = Some n \<and> n < 0 \<longrightarrow> limit_of t = n) \<and>
   parseInt ''0'' = Some 0 \<and> limit_of ''0'' = 10 \<and>
   (parseInt t = Some n \<and> n \<noteq> 0 \<and> n \<le> 25 \<longrightarrow> limit_of t = n) \<and>
   (parseInt t = Some n \<and> 25 < n \<longrightarrow> limit_of t = 25) \<and>
   (store_up e \<longrightarrow>
      st_spotboard e st cmd =
        Inr (st, [(if limit \<le> 0 then SpotboardTrouble
                   else if filter st_scope (spots st) = [] then NoSpotsYet
                   else TopSpotters limit (rows st_scope spotterId), None)]) \<and>
      st_caughtboard e st cmd =
        Inr (st, [(if limit \<le> 0 then CaughtboardTrouble
                   else if filter st_scope (spots st) = [] then NobodyCaught
                   else MostWanted limit (rows st_scope targetId), None)]) \<and>
      (isActiveChannel e st (team_id cmd) (channel_id cmd) = Inr True \<longrightarrow>
         mt_spotboard e st cmd =
           Inr (st, [(if limit \<le> 0 then SpotboardTrouble
                      else if filter mt_scope (spots st) = [] then NoSpotsYet
                      else TopSpotters limit (rows mt_scope spotterId), None)]) \<and>
         mt_caughtboard e st cmd =
           Inr (st, [(if limit \<le> 0 then CaughtboardTrouble
                      else if filter mt_scope (spots st) = [] then NobodyCaught
                      else MostWanted limit (rows mt_scope targetId), None)]))) \<and>
   (parseInt (command_text cmd) = Some k \<and> k < 0 \<and> store_up e \<longrightarrow>
      limit = k \<and>
      Spot_aggregate e st st_scope spotterId limit = Inl StoreError \<and>
      Spot_aggregate e st mt_scope spotterId limit = Inl StoreError \<and>
      st_spotboard e st cmd = Inr (st, [(SpotboardTrouble, None)]) \<and>
      st_caughtboard e st cmd = Inr (st, [(CaughtboardTrouble, None)]) \<and>
      (isActiveChannel e st (team_id cmd) (channel_id cmd) = Inr True \<longrightarrow>
         mt_spotboard e st cmd = Inr (st, [(SpotboardTrouble, None)]) \<and>
         mt_caughtboard e st cmd = Inr (st, [(CaughtboardTrouble, None)])))"
proof -
  have zero: "parseInt ''0'' = Some 0"
    by (simp add: parseInt_def white_space_def digit_def digits_value_def to_double_def)
  have st_m: "st_match cmd = st_scope" and mt_m: "mt_match cmd = mt_scope"
    using assms(2,3) by (auto simp: st_match_def mt_match_def fun_eq_iff)
  have pure: "(parseInt t = Some n \<and> n < 0 \<longrightarrow> limit_of t = n) \<and>
     parseInt ''0'' = Some 0 \<and> limit_of ''0'' = 10 \<and>
     (parseInt t = Some n \<and> n \<noteq> 0 \<and> n \<le> 25 \<longrightarrow> limit_of t = n) \<and>
     (parseInt t = Some n \<and> 25 < n \<longrightarrow> limit_of t = 25)"
    by (simp add: zero limit_of_def)
  have boards: "store_up e \<longrightarrow>
      st_spotboard e st cmd =
        Inr (st, [(if limit \<le> 0 then SpotboardTrouble
                   else if filter st_scope (spots st) = [] then NoSpotsYet
                   else TopSpotters limit (rows st_scope spotterId), None)]) \<and>
      st_caughtboard e st cmd =
        Inr (st, [(if limit \<le> 0 then CaughtboardTrouble
                   else if filter st_scope (spots st) = [] then NobodyCaught
                   else MostWanted limit (rows st_scope targetId), None)]) \<and>
      (isActiveChannel e st (team_id cmd) (channel_id cmd) = Inr True \<longrightarrow>
         mt_spotboard e st cmd =
           Inr (st, [(if limit \<le> 0 then SpotboardTrouble
                      else if filter mt_scope (spots st) = [] then NoSpotsYet
                      else TopSpotters limit (rows mt_scope spotterId), None)]) \<and>
         mt_caughtboard e st cmd =
           Inr (st, [(if limit \<le> 0 then CaughtboardTrouble
                      else if filter mt_scope (spots st) = [] then NobodyCaught
                      else MostWanted limit (rows mt_scope targetId), None)]))"
    unfolding st_spotboard_def st_caughtboard_def mt_spotboard_def mt_caughtboard_def
      st_m mt_m assms(1) [symmetric] assms(4)
    by (simp add: leaderboard_outcome del: filter_empty_conv)
  have neg: "parseInt (command_text cmd) = Some k \<and> k < 0 \<and> store_up e \<longrightarrow>
      limit = k \<and>
      Spot_aggregate e st st_scope spotterId limit = Inl StoreError \<and>
      Spot_aggregate e st mt_scope spotterId limit = Inl StoreError \<and>
      st_spotboard e st cmd = Inr (st, [(SpotboardTrouble, None)]) \<and>
      st_caughtboard e st cmd = Inr (st, [(CaughtboardTrouble, None)]) \<and>
      (isActiveChannel e st (team_id cmd) (channel_id cmd) = Inr True \<longrightarrow>
         mt_spotboard e st cmd = Inr (st, [(SpotboardTrouble, None)]) \<and>
         mt_caughtboard e st cmd = Inr (st, [(CaughtboardTrouble, None)]))"
  proof (intro impI)
    assume a: "parseInt (command_text cmd) = Some k \<and> k < 0 \<and> store_up e"
    then have l: "limit = k" "limit \<le> 0"
      using assms(1) by (simp_all add: limit_of_def)
    with a boards show "limit = k \<and>
      Spot_aggregate e st st_scope spotterId limit = Inl StoreError \<and>
      Spot_aggregate e st mt_scope spotterId limit = Inl StoreError \<and>
      st_spotboard e st cmd = Inr (st, [(SpotboardTrouble, None)]) \<and>
      st_caughtboard e st cmd = Inr (st, [(CaughtboardTrouble, None)]) \<and>
      (isActiveChannel e st (team_id cmd) (channel_id cmd) = Inr True \<longrightarrow>
         mt_spotboard e st cmd = Inr (st, [(SpotboardTrouble, None)]) \<and>
         mt_caughtboard e st cmd = Inr (st, [(CaughtboardTrouble, None)]))"
      by (simp add: Spot_aggregate_def)
  qed
  from pure boards neg show ?thesis
    by blast
qed

theorem limit_no_lower_clamp_witness:
  "limit_of ''-3'' = - 3 \<and> limit_of ''7'' = 7 \<and> limit_of ''26'' = 25 \<and>
   mt_spotboard ex_env ex_board (ex_command\<lparr>channel_id := ''C1'', command_text := ''-3''\<rparr>) =
     Inr (ex_board, [(SpotboardTrouble, None)]) \<and>
   st_caughtboard ex_env ex_st_store (ex_command\<lparr>command_text := ''-3''\<rparr>) =
     Inr (ex_st_store, [(CaughtboardTrouble, None)]) \<and>
   st_spotboard ex_env ex_st_store (ex_command\<lparr>command_text := ''0''\<rparr>) =
     Inr (ex_st_store, [(TopSpotters 10 [(''U1'', 1)], None)])"
proof -
  have p: "parseInt ''-3'' = Some (- 3)" "parseInt ''7'' = Some 7" "parseInt ''26'' = Some 26"
    "parseInt ''0'' = Some 0"
    by (simp_all add: parseInt_def white_space_def digit_def digits_value_def to_double_def)
  have active: "isActiveChannel ex_env ex_board ''T1'' ''C1'' = Inr True"
    by (simp add: ex_env_def ex_board_def ex_store_def isActiveChannel_def
        getActiveChannel_def Installation_findOne_def)
  have up: "store_up ex_env"
    by (simp add: ex_env_def)
  note w1 = limit_no_lower_clamp [OF refl refl refl refl,
      where cmd = "ex_command\<lparr>channel_id := ''C1'', command_text := ''-3''\<rparr>" and st = ex_board
        and e = ex_env and t = "''-3''" and n = "- 3" and k = "- 3"]
  note w2 = limit_no_lower_clamp [OF refl refl refl refl,
      where cmd = "ex_command\<lparr>command_text := ''-3''\<rparr>" and st = ex_st_store
        and e = ex_env and t = "''7''" and n = 7 and k = "- 3"]
  note w3 = limit_no_lower_clamp [OF refl refl refl refl,
      where cmd = "ex_command\<lparr>command_text := ''0''\<rparr>" and st = ex_st_store
        and e = ex_env and t = "''26''" and n = 26 and k = 0]
  have "limit_of ''-3'' = - 3" "limit_of ''7'' = 7" "limit_of ''26'' = 25"
    using w1 w2 w3 p by simp_all
  moreover
  have "mt_spotboard ex_env ex_board (ex_command\<lparr>channel_id := ''C1'', command_text := ''-3''\<rparr>) =
     Inr (ex_board, [(SpotboardTrouble, None)])"
    using w1 p up active by (simp add: ex_command_def)
  moreover
  have "st_caughtboard ex_env ex_st_store (ex_command\<lparr>command_text := ''-3''\<rparr>) =
     Inr (ex_st_store, [(CaughtboardTrouble, None)])"
    using w2 p up by (simp add: ex_command_def)
  moreover
  have "limit_of ''0'' = 10"
    using w3 by simp
  then have "st_spotboard ex_env ex_st_store (ex_command\<lparr>command_text := ''0''\<rparr>) =
     Inr (ex_st_store, [(TopSpotters 10 [(''U1'', 1)], None)])"
    using w3 up by (simp add: ex_command_def ex_st_store_def group_count_def)
  ultimately show ?thesis
    by simp
qed

section \<open>The gallery is read-only\<close>

lemma gallery_unchanged: "gallery tm e st m = Inr (st', says) \<Longrightarrow> st' = st"
  by (auto simp: gallery_def Spot_find_newest_def split: option.splits sum.splits if_splits)

lemma newest_first:
  assumes "found = take n (sort_key (\<lambda>s. - timestamp s) (filter scope xs))"
  shows "length found = min n (length (filter scope xs)) \<and>
         set found \<subseteq> {s \<in> set xs. scope s} \<and>
         sorted_wrt (\<lambda>a b. timestamp b \<le> timestamp a) found \<and>
         (\<forall>a\<in>set found. \<forall>b\<in>set xs. scope b \<and> b \<notin> set found \<longrightarrow> timestamp b \<le> timestamp a)"
proof (intro conjI)
  let ?all = "sort_key (\<lambda>s. - timestamp s) (filter scope xs)"
  show "length found = min n (length (filter scope xs))"
    using assms by simp
  show "set found \<subseteq> {s \<in> set xs. scope s}"
    using assms set_take_subset [of n ?all] by auto
  have "sorted (map (\<lambda>s. - timestamp s) ?all)"
    by (rule sorted_sort_key)
  then have whole: "sorted_wrt (\<lambda>a b. timestamp b \<le> timestamp a) ?all"
    by (simp add: sorted_map)
  then have parts: "sorted_wrt (\<lambda>a b. timestamp b \<le> timestamp a) (take n ?all @ drop n ?all)"
    by simp
  show "sorted_wrt (\<lambda>a b. timestamp b \<le> timestamp a) found"
    using parts assms by (simp only: sorted_wrt_append)
  show "\<forall>a\<in>set found. \<forall>b\<in>set xs. scope b \<and> b \<notin> set found \<longrightarrow> timestamp b \<le> timestamp a"
  proof (intro ballI impI)
    fix a b assume a: "a \<in> set found" and b: "b \<in> set xs" and sb: "scope b \<and> b \<notin> set found"
    have "b \<in> set ?all"
      using b sb by simp
    moreover have "set ?all = set (take n ?all) \<union> set (drop n ?all)"
      by (metis append_take_drop_id set_append)
    moreover have "b \<notin> set (take n ?all)"
      using sb assms by simp
    ultimately have "b \<in> set (drop n ?all)"
      by blast
    moreover have "\<forall>x\<in>set (take n ?all). \<forall>y\<in>set (drop n ?all). timestamp y \<le> timestamp x"
      using parts unfolding sorted_wrt_append by blast
    ultimately show "timestamp b \<le> timestamp a"
      using a assms by blast
  qed
qed

lemma gallery_mention:
  assumes "targetUser (msg_text m) = Some t" and "store_up e"
  shows "gallery tm e st m =
     Inr (st, [(if take 10 (sort_key (\<lambda>s. - timestamp s) (filter
                   (\<lambda>s. (tm \<noteq> None \<longrightarrow> teamId s = tm) \<and> targetId s = t \<and>
                        channelId s = channel m \<and> status s = confirmed) (spots st))) = []
                then IsClean t
                else Gallery t
                  (length (take 10 (sort_key (\<lambda>s. - timestamp s) (filter
                   (\<lambda>s. (tm \<noteq> None \<longrightarrow> teamId s = tm) \<and> targetId s = t \<and>
                        channelId s = channel m \<and> status s = confirmed) (spots st)))))
                  (map block_of (take 10 (sort_key (\<lambda>s. - timestamp s) (filter
                   (\<lambda>s. (tm \<noteq> None \<longrightarrow> teamId s = tm) \<and> targetId s = t \<and>
                        channelId s = channel m \<and> status s = confirmed) (spots st))))), None)])"
  using assms by (simp add: gallery_def Spot_find_newest_def)

text \<open>
  Claim C8. For a pics message in the active channel: without a mention the handler
  replies with the usage prompt; with a mention and the store answering it finds the
  confirmed Spots of that target in that channel (and tenant, in the multi-tenant bot),
  at most 10 of them, newest first and none older than one it leaves out, and renders one
  block per Spot, or replies that the target is clean when there is none. Whatever it
  replies, the store is left as it was.
\<close>

theorem gallery_read_only:
  assumes "isActiveChannel e st (team m) (channel m) = Inr True \<and> handler = mt_pics \<and>
             tm = Some (team m)
           \<or> channel m = st_channel \<and> handler = st_pics \<and> tm = None"
    and "scope = (\<lambda>s. (tm \<noteq> None \<longrightarrow> teamId s = tm) \<and> targetId s = t \<and>
                       channelId s = channel m \<and> status s = confirmed)"
    and "found = take 10 (sort_key (\<lambda>s. - timestamp s) (filter scope (spots st)))"
  shows "(targetUser (msg_text m) = None \<longrightarrow> handler e st m = Inr (st, [(PicsUsage, None)])) \<and>
         (targetUser (msg_text m) = Some t \<and> store_up e \<longrightarrow>
            handler e st m =
              Inr (st, [(if found = [] then IsClean t
                         else Gallery t (length found) (map block_of found), None)]) \<and>
            length found \<le> 10 \<and> length found = min 10 (length (filter scope (spots st))) \<and>
            set found \<subseteq> {s \<in> set (spots st). scope s} \<and>
            sorted_wrt (\<lambda>a b. timestamp b \<le> timestamp a) found \<and>
            (\<forall>a\<in>set found. \<forall>b\<in>set (spots st).
               scope b \<and> b \<notin> set found \<longrightarrow> timestamp b \<le> timestamp a) \<and>
            (found = [] \<longleftrightarrow> (\<forall>s\<in>set (spots st). \<not> scope s))) \<and>
         (\<forall>st' says. handler e st m = Inr (st', says) \<longrightarrow> st' = st)"
proof -
  have body: "handler e st m = gallery tm e st m"
    using assms(1) by (auto simp: mt_pics_def st_pics_def)
  note nf = newest_first [OF assms(3)]
  have empty: "found = [] \<longleftrightarrow> (\<forall>s\<in>set (spots st). \<not> scope s)"
    using nf by (auto simp: filter_empty_conv min_def split: if_splits)
  show ?thesis
    unfolding body
  proof (intro conjI impI allI)
    assume "targetUser (msg_text m) = None"
    then show "gallery tm e st m = Inr (st, [(PicsUsage, None)])"
      by (simp add: gallery_def)
  next
    assume "targetUser (msg_text m) = Some t \<and> store_up e"
    then show "gallery tm e st m =
        Inr (st, [(if found = [] then IsClean t
                   else Gallery t (length found) (map block_of found), None)])"
      unfolding assms(3) assms(2) by (simp add: gallery_mention)
  next
    show "length found \<le> 10" using nf by simp
    show "length found = min 10 (length (filter scope (spots st)))" using nf by simp
    show "set found \<subseteq> {s \<in> set (spots st). scope s}" using nf by simp
    show "sorted_wrt (\<lambda>a b. timestamp b \<le> timestamp a) found" using nf by simp
    show "\<forall>a\<in>set found. \<forall>b\<in>set (spots st).
            scope b \<and> b \<notin> set found \<longrightarrow> timestamp b \<le> timestamp a" using nf by simp
    show "found = [] \<longleftrightarrow> (\<forall>s\<in>set (spots st). \<not> scope s)" by (rule empty)
  next
    fix st' says assume "gallery tm e st m = Inr (st', says)"
    then show "st' = st" by (rule gallery_unchanged)
  qed
qed

theorem gallery_read_only_witness:
  "mt_pics ex_env ex_board ex_pics =
     Inr (ex_board,
          [(Gallery ''U2'' 2
              [\<lparr>block_date = 950, block_spotter = ''U3'',
                block_image = Some ''https://files.slack.com/b.png''\<rparr>,
               \<lparr>block_date = 900, block_spotter = ''U1'',
                block_image = Some ''https://files.slack.com/a.png''\<rparr>], None)]) \<and>
   st_pics ex_env ex_board (ex_pics\<lparr>channel := ''C0AD6UA1G92'', msg_text := ''pics''\<rparr>) =
     Inr (ex_board, [(PicsUsage, None)])"
proof -
  let ?scope = "\<lambda>s. (Some ''T1'' \<noteq> None \<longrightarrow> teamId s = Some ''T1'') \<and> targetId s = ''U2'' \<and>
                    channelId s = channel ex_pics \<and> status s = confirmed"
  let ?found = "[\<lparr>teamId = Some ''T1'', spotterId = ''U3'', targetId = ''U2'',
         imageUrl = Some ''https://files.slack.com/b.png'', channelId = ''C1'',
         messageTs = Some ''1700000000.000200'', status = confirmed, timestamp = 950\<rparr>,
       \<lparr>teamId = Some ''T1'', spotterId = ''U1'', targetId = ''U2'',
         imageUrl = Some ''https://files.slack.com/a.png'', channelId = ''C1'',
         messageTs = Some ''1700000000.000100'', status = confirmed, timestamp = 900\<rparr>]"
  have active: "isActiveChannel ex_env ex_board (team ex_pics) (channel ex_pics) = Inr True"
    by (simp add: ex_env_def ex_board_def ex_store_def ex_pics_def isActiveChannel_def
        getActiveChannel_def Installation_findOne_def)
  have found: "?found = take 10 (sort_key (\<lambda>s. - timestamp s) (filter ?scope (spots ex_board)))"
    by (simp add: ex_board_def ex_pics_def)
  have mention: "targetUser (msg_text ex_pics) = Some ''U2''"
    by (simp add: ex_pics_def mention_at_def is_id_char_def)
  have up: "store_up ex_env"
    by (simp add: ex_env_def)
  have "mt_pics ex_env ex_board ex_pics =
     Inr (ex_board, [(if ?found = [] then IsClean ''U2''
                      else Gallery ''U2'' (length ?found) (map block_of ?found), None)])"
    using gallery_read_only [of ex_env ex_board ex_pics mt_pics "Some ''T1''" ?scope "''U2''" ?found]
      active found mention up
    by (simp add: ex_pics_def)
  moreover
  have "st_pics ex_env ex_board (ex_pics\<lparr>channel := ''C0AD6UA1G92'', msg_text := ''pics''\<rparr>) =
     Inr (ex_board, [(PicsUsage, None)])"
    using gallery_read_only [of ex_env ex_board
        "ex_pics\<lparr>channel := ''C0AD6UA1G92'', msg_text := ''pics''\<rparr>" st_pics None]
    by (simp add: st_channel_def ex_pics_def mention_at_def)
  ultimately show ?thesis
    by (simp add: block_of_def)
qed

section \<open>Who can veto, and what\<close>

lemma veto_not_threaded:
  "thread_ts m = None \<or> thread_ts m = Some [] \<or> thread_ts m = Some (ts m) \<Longrightarrow>
   veto tm e st m = Inr (st, [])"
  by (auto simp: veto_def)

lemma veto_found:
  assumes "thread_ts m = Some root" and "root \<noteq> []" and "root \<noteq> ts m"
    and "users_info e (user m) = Inr True" and "store_up e"
    and "find (veto_match tm m root) (spots st) = Some d"
  shows "veto tm e st m =
     Inr (st\<lparr>spots := remove1 d (spots st)\<rparr>,
          [(Vetoed (user m) (spotterId d) (targetId d) (timestamp d), Some root)])"
  using assms by (simp add: veto_def Spot_findOneAndDelete_def)

lemma veto_missing:
  assumes "thread_ts m = Some root" and "root \<noteq> []" and "root \<noteq> ts m"
    and "users_info e (user m) = Inr True" and "store_up e"
    and "find (veto_match tm m root) (spots st) = None"
  shows "veto tm e st m = Inr (st, [(NoSpotFound, Some root)])"
  using assms by (simp add: veto_def Spot_findOneAndDelete_def)

lemma veto_changes_only_when:
  assumes "veto tm e st m = Inr (st', says)" and "st' \<noteq> st"
  shows "\<exists>root d. thread_ts m = Some root \<and> root \<noteq> [] \<and> root \<noteq> ts m \<and>
           users_info e (user m) = Inr True \<and>
           find (veto_match tm m root) (spots st) = Some d \<and>
           st' = st\<lparr>spots := remove1 d (spots st)\<rparr> \<and>
           says = [(Vetoed (user m) (spotterId d) (targetId d) (timestamp d), Some root)]"
  using assms
  by (auto simp: veto_def Spot_findOneAndDelete_def
      split: option.splits sum.splits if_splits)

lemma find_first_match:
  "find P xs = Some d \<Longrightarrow> d \<in> set xs \<and> P d \<and> length (remove1 d xs) + 1 = length xs"
  by (induction xs) (auto split: if_splits simp: length_remove1)

lemma find_first_of_split:
  assumes "P d" and "\<forall>x\<in>set pre. \<not> P x"
  shows "find P (pre @ d # post) = Some d \<and> remove1 d (pre @ d # post) = pre @ post"
proof -
  have "d \<notin> set pre"
    using assms by auto
  moreover have "find P (pre @ d # post) = Some d"
    using assms by (induction pre) auto
  ultimately show ?thesis
    by (simp add: remove1_append)
qed

text \<open>
  Claim C2. In both variants a veto changes the store only when the message is a threaded
  reply (its thread root exists, is not empty and differs from its own timestamp) written
  by an administrator, and then it removes exactly one Spot, one whose \<open>messageTs\<close> is the
  thread root and whose channel (and tenant, in the multi-tenant bot) is that of the
  message, and confirms in the thread. A veto that is not threaded is ignored without a
  reply. For a threaded veto of an administrator, with the store answering (and the
  channel active, in the multi-tenant bot): when the collection holds a Spot whose
  \<open>messageTs\<close> is the thread root and whose channel (and tenant) is that of the message,
  the first such Spot is removed, the others stay, and the reply in the thread recaps its
  spotter, target and time; when it holds none, the reply in the thread is "no spot
  found".
\<close>

theorem veto_threaded_admin_only:
  assumes "handler = mt_veto \<and> tm = Some (team m) \<and>
             active = (isActiveChannel e st (team m) (channel m) = Inr True) \<and>
             scope = (\<lambda>r s. teamId s = Some (team m) \<and> messageTs s = Some r \<and>
                             channelId s = channel m)
           \<or> handler = st_veto \<and> tm = None \<and> active \<and>
             scope = (\<lambda>r s. messageTs s = Some r \<and> channelId s = channel m)"
  shows "(handler e st m = Inr (st', says) \<and> st' \<noteq> st \<longrightarrow>
            (\<exists>root d. thread_ts m = Some root \<and> root \<noteq> [] \<and> root \<noteq> ts m \<and>
               users_info e (user m) = Inr True \<and>
               d \<in> set (spots st) \<and> scope root d \<and>
               spots st' = remove1 d (spots st) \<and>
               length (spots st') + 1 = length (spots st) \<and>
               installations st' = installations st \<and>
               says = [(Vetoed (user m) (spotterId d) (targetId d) (timestamp d), Some root)])) \<and>
         (active \<longrightarrow>
            (thread_ts m = None \<or> thread_ts m = Some [] \<or> thread_ts m = Some (ts m) \<longrightarrow>
               handler e st m = Inr (st, [])) \<and>
            (thread_ts m = Some r \<and> r \<noteq> [] \<and> r \<noteq> ts m \<and> users_info e (user m) = Inr True \<and>
             store_up e \<longrightarrow>
               (spots st = pre @ d # post \<and> scope r d \<and> (\<forall>x\<in>set pre. \<not> scope r x) \<longrightarrow>
                  handler e st m =
                    Inr (st\<lparr>spots := pre @ post\<rparr>,
                         [(Vetoed (user m) (spotterId d) (targetId d) (timestamp d),
                           Some r)])) \<and>
               ((\<forall>s\<in>set (spots st). \<not> scope r s) \<longrightarrow>
                  handler e st m = Inr (st, [(NoSpotFound, Some r)]))))"
proof -
  have sc: "scope = veto_match tm m"
    using assms by (auto simp: veto_match_def fun_eq_iff)
  have variant: "handler = mt_veto \<and> tm = Some (team m) \<or> handler = st_veto \<and> tm = None"
    using assms by auto
  have body: "active \<Longrightarrow> handler e st m = veto tm e st m"
    using assms by (auto simp: mt_veto_def st_veto_def)
  show ?thesis
  proof (intro conjI impI)
    assume a: "handler e st m = Inr (st', says) \<and> st' \<noteq> st"
    have "veto tm e st m = Inr (st', says)"
      using variant a by (auto simp: mt_veto_def st_veto_def split: sum.splits if_splits)
    from veto_changes_only_when [OF this] a
    obtain root d where r: "thread_ts m = Some root" "root \<noteq> []" "root \<noteq> ts m"
        "users_info e (user m) = Inr True" "find (veto_match tm m root) (spots st) = Some d"
        "st' = st\<lparr>spots := remove1 d (spots st)\<rparr>"
        "says = [(Vetoed (user m) (spotterId d) (targetId d) (timestamp d), Some root)]"
      by blast
    from find_first_match [OF r(5)] r
    show "\<exists>root d. thread_ts m = Some root \<and> root \<noteq> [] \<and> root \<noteq> ts m \<and>
               users_info e (user m) = Inr True \<and>
               d \<in> set (spots st) \<and> scope root d \<and>
               spots st' = remove1 d (spots st) \<and>
               length (spots st') + 1 = length (spots st) \<and>
               installations st' = installations st \<and>
               says = [(Vetoed (user m) (spotterId d) (targetId d) (timestamp d), Some root)]"
      unfolding sc by (intro exI [of _ root] exI [of _ d]) simp
  next
    assume "active"
      and t: "thread_ts m = None \<or> thread_ts m = Some [] \<or> thread_ts m = Some (ts m)"
    then show "handler e st m = Inr (st, [])"
      by (simp add: body veto_not_threaded)
  next
    assume act: "active"
      and t: "thread_ts m = Some r \<and> r \<noteq> [] \<and> r \<noteq> ts m \<and> users_info e (user m) = Inr True \<and>
             store_up e"
      and sp: "spots st = pre @ d # post \<and> scope r d \<and> (\<forall>x\<in>set pre. \<not> scope r x)"
    from sp have "find (veto_match tm m r) (spots st) = Some d \<and>
        remove1 d (spots st) = pre @ post"
      unfolding sc using find_first_of_split [of "veto_match tm m r" d pre post] by simp
    with t show "handler e st m =
        Inr (st\<lparr>spots := pre @ post\<rparr>,
             [(Vetoed (user m) (spotterId d) (targetId d) (timestamp d), Some r)])"
      by (simp add: body [OF act] veto_found)
  next
    assume act: "active"
      and t: "thread_ts m = Some r \<and> r \<noteq> [] \<and> r \<noteq> ts m \<and> users_info e (user m) = Inr True \<and>
             store_up e"
      and no: "\<forall>s\<in>set (spots st). \<not> scope r s"
    from no have "find (veto_match tm m r) (spots st) = None"
      unfolding sc by (auto simp: find_None_iff)
    with t show "handler e st m = Inr (st, [(NoSpotFound, Some r)])"
      by (simp add: body [OF act] veto_missing)
  qed
qed

theorem veto_threaded_admin_only_witness:
  "mt_veto ex_env ex_board ex_veto =
     Inr (ex_board\<lparr>spots := tl (spots ex_board)\<rparr>,
          [(Vetoed ''UADMIN'' ''U1'' ''U2'' 900, Some ''1700000000.000100'')]) \<and>
   st_veto ex_env ex_board (ex_veto\<lparr>thread_ts := Some ''1700000000.000200''\<rparr>) =
     Inr (ex_board\<lparr>spots := [hd (spots ex_board), last (spots ex_board)]\<rparr>,
          [(Vetoed ''UADMIN'' ''U3'' ''U2'' 950, Some ''1700000000.000200'')]) \<and>
   st_veto ex_env ex_board (ex_veto\<lparr>thread_ts := Some ''1700000000.000900''\<rparr>) =
     Inr (ex_board, []) \<and>
   st_veto ex_env ex_st_store (ex_veto\<lparr>channel := ''C9''\<rparr>) =
     Inr (ex_st_store, [(NoSpotFound, Some ''1700000000.000100'')])"
proof -
  let ?s1 = "\<lparr>teamId = Some ''T1'', spotterId = ''U1'', targetId = ''U2'',
         imageUrl = Some ''https://files.slack.com/a.png'', channelId = ''C1'',
         messageTs = Some ''1700000000.000100'', status = confirmed, timestamp = 900\<rparr>"
  let ?s2 = "\<lparr>teamId = Some ''T1'', spotterId = ''U3'', targetId = ''U2'',
         imageUrl = Some ''https://files.slack.com/b.png'', channelId = ''C1'',
         messageTs = Some ''1700000000.000200'', status = confirmed, timestamp = 950\<rparr>"
  let ?s3 = "\<lparr>teamId = Some ''T1'', spotterId = ''U1'', targetId = ''U3'',
         imageUrl = Some ''https://files.slack.com/c.png'', channelId = ''C1'',
         messageTs = Some ''1700000000.000300'', status = confirmed, timestamp = 920\<rparr>"
  have active: "isActiveChannel ex_env ex_board (team ex_veto) (channel ex_veto) = Inr True"
    by (simp add: ex_env_def ex_board_def ex_store_def ex_veto_def isActiveChannel_def
        getActiveChannel_def Installation_findOne_def)
  have "mt_veto ex_env ex_board ex_veto =
     Inr (ex_board\<lparr>spots := tl (spots ex_board)\<rparr>,
          [(Vetoed ''UADMIN'' ''U1'' ''U2'' 900, Some ''1700000000.000100'')])"
    using veto_threaded_admin_only [of mt_veto "Some ''T1''" ex_veto
        "isActiveChannel ex_env ex_board (team ex_veto) (channel ex_veto) = Inr True"
        ex_env ex_board
        "\<lambda>r s. teamId s = Some (team ex_veto) \<and> messageTs s = Some r \<and>
               channelId s = channel ex_veto" ex_board "[]" "''1700000000.000100''"
        "[]" ?s1 "[?s2, ?s3]"] active
    by (simp add: ex_env_def ex_board_def ex_veto_def)
  moreover
  have "st_veto ex_env ex_board (ex_veto\<lparr>thread_ts := Some ''1700000000.000200''\<rparr>) =
     Inr (ex_board\<lparr>spots := [hd (spots ex_board), last (spots ex_board)]\<rparr>,
          [(Vetoed ''UADMIN'' ''U3'' ''U2'' 950, Some ''1700000000.000200'')])"
    using veto_threaded_admin_only [of st_veto None
        "ex_veto\<lparr>thread_ts := Some ''1700000000.000200''\<rparr>" True ex_env ex_board
        "\<lambda>r s. messageTs s = Some r \<and>
               channelId s = channel (ex_veto\<lparr>thread_ts := Some ''1700000000.000200''\<rparr>)"
        ex_board "[]" "''1700000000.000200''" "[?s1]" ?s2 "[?s3]"]
    by (simp add: ex_env_def ex_board_def ex_veto_def)
  moreover
  have "st_veto ex_env ex_board (ex_veto\<lparr>thread_ts := Some ''1700000000.000900''\<rparr>) =
     Inr (ex_board, [])"
    using veto_threaded_admin_only [of st_veto None
        "ex_veto\<lparr>thread_ts := Some ''1700000000.000900''\<rparr>" True ex_env ex_board
        "\<lambda>r s. messageTs s = Some r \<and>
               channelId s = channel (ex_veto\<lparr>thread_ts := Some ''1700000000.000900''\<rparr>)"
        ex_board "[]" "''1700000000.000900''"]
    by (simp add: ex_veto_def)
  moreover
  have "st_veto ex_env ex_st_store (ex_veto\<lparr>channel := ''C9''\<rparr>) =
     Inr (ex_st_store, [(NoSpotFound, Some ''1700000000.000100'')])"
    using veto_threaded_admin_only [of st_veto None "ex_veto\<lparr>channel := ''C9''\<rparr>" True ex_env
        ex_st_store
        "\<lambda>r s. messageTs s = Some r \<and> channelId s = channel (ex_veto\<lparr>channel := ''C9''\<rparr>)"
        ex_st_store "[]" "''1700000000.000100''"]
    by (simp add: ex_env_def ex_st_store_def ex_veto_def)
  ultimately show ?thesis
    by simp
qed

text \<open>
  Under either schema of the source, what the single-tenant spot listener adds to the
  collection carries no \<open>messageTs\<close>, so a veto in the thread of a message finds no Spot
  which that listener logged from it.
\<close>

lemma st_logged_spot_not_linked:
  assumes "sch = SpotSchema_plain \<or> sch = SpotSchema_team"
    and "st_spot_listener sch e st m = Inr (st', says)"
  shows "spots st' = spots st \<or>
         (\<exists>d. spots st' = spots st @ [d] \<and> teamId d = None \<and> messageTs d = None)"
  using assms
  by (auto simp: st_spot_listener_def log_spot_def Spot_save_def SpotSchema_valid_def
      new_Spot_def required_def SpotSchema_plain_def SpotSchema_team_def
      split: if_splits option.splits list.splits)

section \<open>The channel check, handler by handler\<close>

text \<open>
  Claim C3, as stated, fails for the single-tenant bot: its \<^verbatim>\<open>/reset\<close> (like its
  \<^verbatim>\<open>/spotboard\<close>, \<^verbatim>\<open>/caughtboard\<close> and veto) has no channel check. Run by an
  administrator in a channel other than the constant one, it deletes that channel's spots
  and reports the count.
\<close>

theorem st_reset_unchecked_counterexample:
  "channel_id ex_command \<noteq> st_channel \<and>
   st_reset ex_env ex_st_store ex_command =
     Inr (ex_st_store\<lparr>spots := []\<rparr>, [(Kaboom ''UADMIN'' 1, None)])"
  by (simp add: ex_command_def ex_st_store_def ex_env_def st_channel_def st_reset_def reset_def
      Spot_deleteMany_def)

text \<open>
  Claim C3, amended. In the multi-tenant bot every message and command handler other than
  \<^verbatim>\<open>/setchannel\<close> calls \<open>isActiveChannel\<close> first and returns what that call raises.
  When the answer is no, a message handler does nothing and a command handler replies
  with the "not active" notice; the store is left as it was and the outcome is the same
  whatever the Spot collection holds. For a tenant without a bound active channel the
  answer is no for every channel. In the single-tenant bot the spot and pics listeners do
  nothing outside the constant channel. Its \<^verbatim>\<open>/spotboard\<close>, \<^verbatim>\<open>/caughtboard\<close>,
  \<^verbatim>\<open>/reset\<close> and veto have no channel check: in whatever channel they are invoked, the
  three commands never reply with the notice, a board is rendered when the channel has a
  confirmed Spot and the limit is positive, a reset by an administrator deletes the
  channel's Spots, and a threaded veto by an administrator removes the first Spot of the
  channel whose \<open>messageTs\<close> is the thread root.
\<close>

theorem inactive_channel_no_effect:
  "(isActiveChannel e st (team m) (channel m) = Inr False \<longrightarrow>
      mt_spot_listener sch e st m = Inr (st, []) \<and> mt_pics e st m = Inr (st, []) \<and>
      mt_veto e st m = Inr (st, [])) \<and>
   (isActiveChannel e st (team_id cmd) (channel_id cmd) = Inr False \<longrightarrow>
      mt_spotboard e st cmd = Inr (st, [(NotActive, None)]) \<and>
      mt_caughtboard e st cmd = Inr (st, [(NotActive, None)]) \<and>
      mt_reset e st cmd = Inr (st, [(NotActive, None)])) \<and>
   (isActiveChannel e st (team m) (channel m) = Inl err \<longrightarrow>
      mt_spot_listener sch e st m = Inl err \<and> mt_pics e st m = Inl err \<and>
      mt_veto e st m = Inl err) \<and>
   (isActiveChannel e st (team_id cmd) (channel_id cmd) = Inl err \<longrightarrow>
      mt_spotboard e st cmd = Inl err \<and> mt_caughtboard e st cmd = Inl err \<and>
      mt_reset e st cmd = Inl err) \<and>
   (getActiveChannel e st t = Inr None \<longrightarrow> isActiveChannel e st t c = Inr False) \<and>
   isActiveChannel e (st\<lparr>spots := sp\<rparr>) t c = isActiveChannel e st t c \<and>
   (channel m \<noteq> st_channel \<longrightarrow>
      st_spot_listener sch e st m = Inr (st, []) \<and> st_pics e st m = Inr (st, [])) \<and>
   st_spotboard e st cmd \<noteq> Inr (st, [(NotActive, None)]) \<and>
   st_caughtboard e st cmd \<noteq> Inr (st, [(NotActive, None)]) \<and>
   st_reset e st cmd \<noteq> Inr (st, [(NotActive, None)]) \<and>
   (store_up e \<and> 0 < limit_of (command_text cmd) \<and>
    (\<exists>s\<in>set (spots st). channelId s = channel_id cmd \<and> status s = confirmed) \<longrightarrow>
      (\<exists>rows. rows \<noteq> [] \<and>
         st_spotboard e st cmd =
           Inr (st, [(TopSpotters (limit_of (command_text cmd)) rows, None)])) \<and>
      (\<exists>rows. rows \<noteq> [] \<and>
         st_caughtboard e st cmd =
           Inr (st, [(MostWanted (limit_of (command_text cmd)) rows, None)]))) \<and>
   (users_info e (user_id cmd) = Inr True \<and> store_up e \<longrightarrow>
      st_reset e st cmd =
        Inr (st\<lparr>spots := filter (\<lambda>s. channelId s \<noteq> channel_id cmd) (spots st)\<rparr>,
             [(if 0 < length (filter (\<lambda>s. channelId s = channel_id cmd) (spots st))
               then Kaboom (user_id cmd)
                      (length (filter (\<lambda>s. channelId s = channel_id cmd) (spots st)))
               else AlreadyClean, None)])) \<and>
   (thread_ts m = Some r \<and> r \<noteq> [] \<and> r \<noteq> ts m \<and> users_info e (user m) = Inr True \<and>
    store_up e \<and> spots st = pre @ d # post \<and> messageTs d = Some r \<and>
    channelId d = channel m \<and>
    (\<forall>x\<in>set pre. \<not> (messageTs x = Some r \<and> channelId x = channel m)) \<longrightarrow>
      st_veto e st m =
        Inr (st\<lparr>spots := pre @ post\<rparr>,
             [(Vetoed (user m) (spotterId d) (targetId d) (timestamp d), Some r)]))"
proof -
  have mt: "(isActiveChannel e st (team m) (channel m) = Inr False \<longrightarrow>
      mt_spot_listener sch e st m = Inr (st, []) \<and> mt_pics e st m = Inr (st, []) \<and>
      mt_veto e st m = Inr (st, [])) \<and>
   (isActiveChannel e st (team_id cmd) (channel_id cmd) = Inr False \<longrightarrow>
      mt_spotboard e st cmd = Inr (st, [(NotActive, None)]) \<and>
      mt_caughtboard e st cmd = Inr (st, [(NotActive, None)]) \<and>
      mt_reset e st cmd = Inr (st, [(NotActive, None)])) \<and>
   (isActiveChannel e st (team m) (channel m) = Inl err \<longrightarrow>
      mt_spot_listener sch e st m = Inl err \<and> mt_pics e st m = Inl err \<and>
      mt_veto e st m = Inl err) \<and>
   (isActiveChannel e st (team_id cmd) (channel_id cmd) = Inl err \<longrightarrow>
      mt_spotboard e st cmd = Inl err \<and> mt_caughtboard e st cmd = Inl err \<and>
      mt_reset e st cmd = Inl err) \<and>
   (getActiveChannel e st t = Inr None \<longrightarrow> isActiveChannel e st t c = Inr False) \<and>
   isActiveChannel e (st\<lparr>spots := sp\<rparr>) t c = isActiveChannel e st t c \<and>
   (channel m \<noteq> st_channel \<longrightarrow>
      st_spot_listener sch e st m = Inr (st, []) \<and> st_pics e st m = Inr (st, []))"
    by (simp add: mt_spot_listener_def mt_pics_def mt_veto_def mt_spotboard_def
        mt_caughtboard_def mt_reset_def st_spot_listener_def st_pics_def
        isActiveChannel_ignores_spots)
       (simp add: isActiveChannel_def)
  have never: "st_spotboard e st cmd \<noteq> Inr (st, [(NotActive, None)]) \<and>
     st_caughtboard e st cmd \<noteq> Inr (st, [(NotActive, None)]) \<and>
     st_reset e st cmd \<noteq> Inr (st, [(NotActive, None)])"
    by (auto simp: st_spotboard_def st_caughtboard_def st_reset_def leaderboard_def reset_def
        split: sum.splits if_splits prod.splits)
  have boards: "store_up e \<and> 0 < limit_of (command_text cmd) \<and>
    (\<exists>s\<in>set (spots st). channelId s = channel_id cmd \<and> status s = confirmed) \<longrightarrow>
      (\<exists>rows. rows \<noteq> [] \<and>
         st_spotboard e st cmd =
           Inr (st, [(TopSpotters (limit_of (command_text cmd)) rows, None)])) \<and>
      (\<exists>rows. rows \<noteq> [] \<and>
         st_caughtboard e st cmd =
           Inr (st, [(MostWanted (limit_of (command_text cmd)) rows, None)]))"
  proof (intro impI)
    assume a: "store_up e \<and> 0 < limit_of (command_text cmd) \<and>
      (\<exists>s\<in>set (spots st). channelId s = channel_id cmd \<and> status s = confirmed)"
    then have ne: "filter (st_match cmd) (spots st) \<noteq> []"
      by (auto simp: filter_empty_conv st_match_def)
    have rows: "take (nat (limit_of (command_text cmd)))
        (sort_key (\<lambda>g. - int (snd g)) (group_count key (filter (st_match cmd) (spots st)))) \<noteq> []"
      for key
      using a ne by (simp add: take_eq_Nil sort_key_empty group_count_empty del: filter_empty_conv)
    show "(\<exists>rows. rows \<noteq> [] \<and>
         st_spotboard e st cmd =
           Inr (st, [(TopSpotters (limit_of (command_text cmd)) rows, None)])) \<and>
      (\<exists>rows. rows \<noteq> [] \<and>
         st_caughtboard e st cmd =
           Inr (st, [(MostWanted (limit_of (command_text cmd)) rows, None)]))"
      using a ne rows [of spotterId] rows [of targetId]
      by (simp add: st_spotboard_def st_caughtboard_def leaderboard_outcome
          del: filter_empty_conv)
  qed
  have rst: "users_info e (user_id cmd) = Inr True \<and> store_up e \<longrightarrow>
      st_reset e st cmd =
        Inr (st\<lparr>spots := filter (\<lambda>s. channelId s \<noteq> channel_id cmd) (spots st)\<rparr>,
             [(if 0 < length (filter (\<lambda>s. channelId s = channel_id cmd) (spots st))
               then Kaboom (user_id cmd)
                      (length (filter (\<lambda>s. channelId s = channel_id cmd) (spots st)))
               else AlreadyClean, None)])"
    by (simp add: st_reset_def reset_authorized)
  have vt: "thread_ts m = Some r \<and> r \<noteq> [] \<and> r \<noteq> ts m \<and> users_info e (user m) = Inr True \<and>
    store_up e \<and> spots st = pre @ d # post \<and> messageTs d = Some r \<and>
    channelId d = channel m \<and>
    (\<forall>x\<in>set pre. \<not> (messageTs x = Some r \<and> channelId x = channel m)) \<longrightarrow>
      st_veto e st m =
        Inr (st\<lparr>spots := pre @ post\<rparr>,
             [(Vetoed (user m) (spotterId d) (targetId d) (timestamp d), Some r)])"
  proof (intro impI)
    assume a: "thread_ts m = Some r \<and> r \<noteq> [] \<and> r \<noteq> ts m \<and> users_info e (user m) = Inr True \<and>
      store_up e \<and> spots st = pre @ d # post \<and> messageTs d = Some r \<and>
      channelId d = channel m \<and>
      (\<forall>x\<in>set pre. \<not> (messageTs x = Some r \<and> channelId x = channel m))"
    then have "find (veto_match None m r) (spots st) = Some d \<and>
        remove1 d (spots st) = pre @ post"
      using find_first_of_split [of "veto_match None m r" d pre post]
      by (simp add: veto_match_def)
    with a show "st_veto e st m =
        Inr (st\<lparr>spots := pre @ post\<rparr>,
             [(Vetoed (user m) (spotterId d) (targetId d) (timestamp d), Some r)])"
      by (simp add: st_veto_def veto_found)
  qed
  from mt never boards rst vt show ?thesis
    by blast
qed

theorem inactive_channel_no_effect_witness:
  "mt_spot_listener SpotSchema_team ex_env ex_store (ex_message\<lparr>team := ''T2''\<rparr>) =
     Inr (ex_store, []) \<and>
   mt_reset ex_env ex_store (ex_command\<lparr>team_id := ''T2''\<rparr>) =
     Inr (ex_store, [(NotActive, None)]) \<and>
   st_spot_listener SpotSchema_plain ex_env ex_st_store ex_message = Inr (ex_st_store, []) \<and>
   channel_id ex_command \<noteq> st_channel \<and>
   (\<exists>rows. rows \<noteq> [] \<and>
      st_spotboard ex_env ex_st_store ex_command =
        Inr (ex_st_store, [(TopSpotters 10 rows, None)])) \<and>
   st_reset ex_env ex_st_store ex_command =
     Inr (ex_st_store\<lparr>spots := []\<rparr>, [(Kaboom ''UADMIN'' 1, None)]) \<and>
   channel ex_veto \<noteq> st_channel \<and>
   st_veto ex_env ex_board ex_veto =
     Inr (ex_board\<lparr>spots := tl (spots ex_board)\<rparr>,
          [(Vetoed ''UADMIN'' ''U1'' ''U2'' 900, Some ''1700000000.000100'')])"
proof -
  have ten: "limit_of (command_text ex_command) = 10"
    by (simp add: ex_command_def limit_of_def parseInt_def white_space_def)
  note closed = inactive_channel_no_effect [where e = ex_env and st = ex_store
      and m = "ex_message\<lparr>team := ''T2''\<rparr>" and cmd = "ex_command\<lparr>team_id := ''T2''\<rparr>"
      and sch = SpotSchema_team]
  note open_st = inactive_channel_no_effect [where e = ex_env and st = ex_st_store
      and m = ex_message and cmd = ex_command and sch = SpotSchema_plain]
  note veto_st = inactive_channel_no_effect [where e = ex_env and st = ex_board
      and m = ex_veto and cmd = ex_command and r = "''1700000000.000100''" and pre = "[]"
      and d = "hd (spots ex_board)" and post = "tl (spots ex_board)"]
  have "mt_spot_listener SpotSchema_team ex_env ex_store (ex_message\<lparr>team := ''T2''\<rparr>) =
      Inr (ex_store, []) \<and>
    mt_reset ex_env ex_store (ex_command\<lparr>team_id := ''T2''\<rparr>) =
      Inr (ex_store, [(NotActive, None)])"
    using closed
    by (simp add: ex_env_def ex_store_def ex_message_def ex_command_def isActiveChannel_def
        getActiveChannel_def Installation_findOne_def)
  moreover
  have "st_spot_listener SpotSchema_plain ex_env ex_st_store ex_message = Inr (ex_st_store, []) \<and>
    channel_id ex_command \<noteq> st_channel \<and>
    (\<exists>rows. rows \<noteq> [] \<and>
       st_spotboard ex_env ex_st_store ex_command =
         Inr (ex_st_store, [(TopSpotters 10 rows, None)])) \<and>
    st_reset ex_env ex_st_store ex_command =
      Inr (ex_st_store\<lparr>spots := []\<rparr>, [(Kaboom ''UADMIN'' 1, None)])"
    using open_st ten
    by (simp add: ex_env_def ex_st_store_def ex_message_def ex_command_def st_channel_def)
  moreover
  have "channel ex_veto \<noteq> st_channel \<and>
    st_veto ex_env ex_board ex_veto =
      Inr (ex_board\<lparr>spots := tl (spots ex_board)\<rparr>,
           [(Vetoed ''UADMIN'' ''U1'' ''U2'' 900, Some ''1700000000.000100'')])"
    using veto_st
    by (simp add: ex_env_def ex_board_def ex_veto_def st_channel_def)
  ultimately show ?thesis
    by blast
qed

end
